theory Spec2Isabelle
  imports Complex_Main "HOL-Library.Signed_Division"
begin

section \<open>Conventions of the embedding\<close>

text \<open>
  The development embeds the decoration hit-testing code (\<^verbatim>\<open>src/ssd/ssd.c\<close>), the
  interactive move helpers (\<^verbatim>\<open>src/interactive.c\<close>) and the window switcher
  (\<^verbatim>\<open>src/osd.c\<close>).

  \<^item> A C pointer is an \<open>addr option\<close>: \<open>None\<close> is \<^verbatim>\<open>NULL\<close>, \<open>Some a\<close> the object at
    address \<open>a\<close>. Pointer equality of the source is equality of these values.
  \<^item> A C \<^verbatim>\<open>int\<close> is an \<open>int\<close>; none of the properties below depends on overflow,
    which is undefined for \<^verbatim>\<open>int\<close> in C. Division \<^verbatim>\<open>/\<close> on \<^verbatim>\<open>int\<close> truncates
    towards zero and is written \<open>sdiv\<close>.
  \<^item> A C \<^verbatim>\<open>double\<close> is the \<open>real\<close> it denotes. Comparisons of a double with an
    int-valued expression are exact in C. Where the result of double arithmetic is
    converted to \<^verbatim>\<open>int\<close> (\<^verbatim>\<open>max_move_scale\<close> and the box origin computed by
    \<^verbatim>\<open>interactive_anchor_to_cursor\<close>), each operation is rounded to IEEE 754 binary64,
    to nearest with ties to even (\<open>round_double\<close>); the translation of the cursor into
    output coordinates, which is only compared, is taken as exact. The conversion of a
    double to \<^verbatim>\<open>int\<close> truncates towards zero (\<open>c_int_of_double\<close>); a value outside
    the range of \<^verbatim>\<open>int\<close>, which includes the infinities of an overflow, makes the
    conversion undefined in C and is outside the model, like \<^verbatim>\<open>int\<close> overflow.
  \<^item> An \<^verbatim>\<open>assert\<close> that fails, a dereferenced \<^verbatim>\<open>NULL\<close> and a floating-point
    division by zero whose result is converted to \<^verbatim>\<open>int\<close> are values of
    the type \<open>fault\<close>, returned on the left of a sum.
\<close>

type_synonym addr = nat

datatype fault = Assertion_failed | Null_dereference | Undefined_conversion

definition c_int_of_double :: "real \<Rightarrow> int" where
  "c_int_of_double r = (if 0 \<le> r then \<lfloor>r\<rfloor> else \<lceil>r\<rceil>)"

text \<open>
  Rounding to binary64. \<open>ilog2 n\<close> is the position of the leading bit of \<open>n\<close>, and
  \<open>double_exponent x\<close> the exponent \<open>e\<close> of a positive \<open>x\<close>, with \<open>2 ^ e \<le> x < 2 ^ (e + 1)\<close>.
  A double has 53 significant bits, so the doubles around \<open>x\<close> are the multiples of
  \<open>2 ^ (e - 52)\<close>, where \<open>e\<close> is not less than -1022, the exponent of the subnormal
  numbers. \<open>round_double x\<close> is the multiple nearest to \<open>x\<close>, the one with the even
  multiplier when two are equally near. The four operations of C on doubles are the
  exact operations followed by this rounding.
\<close>

fun ilog2 :: "nat \<Rightarrow> nat" where
  "ilog2 n = (if n < 2 then 0 else Suc (ilog2 (n div 2)))"

declare ilog2.simps [simp del]

definition double_exponent :: "real \<Rightarrow> int" where
  "double_exponent x =
    (if 1 \<le> x then int (ilog2 (nat \<lfloor>x\<rfloor>))
     else let k = ilog2 (nat \<lfloor>1 / x\<rfloor>) in if x * 2 ^ k = 1 then - int k else - int k - 1)"

definition two_to :: "int \<Rightarrow> real" where
  "two_to e = (if 0 \<le> e then 2 ^ nat e else 1 / 2 ^ nat (- e))"

definition round_half_even :: "real \<Rightarrow> int" where
  "round_half_even q =
    (let f = \<lfloor>q\<rfloor>; d = q - real_of_int f
     in if d < 1 / 2 then f else if 1 / 2 < d then f + 1 else if even f then f else f + 1)"

definition round_double :: "real \<Rightarrow> real" where
  "round_double x =
    (if x = 0 then 0
     else let e = max (double_exponent \<bar>x\<bar>) (- 1022); ulp = two_to (e - 52)
          in ulp * real_of_int (round_half_even (x / ulp)))"

definition double_add :: "real \<Rightarrow> real \<Rightarrow> real" where
  "double_add a b = round_double (a + b)"

definition double_sub :: "real \<Rightarrow> real \<Rightarrow> real" where
  "double_sub a b = round_double (a - b)"

definition double_mul :: "real \<Rightarrow> real \<Rightarrow> real" where
  "double_mul a b = round_double (a * b)"

definition double_div :: "real \<Rightarrow> real \<Rightarrow> real" where
  "double_div a b = round_double (a / b)"

section \<open>Part taxonomy\<close>

text \<open>
  Modelled from the spec: \<^verbatim>\<open>enum ssd_part_type\<close> is declared in \<^verbatim>\<open>include/ssd.h\<close>, which
  is not among the source files. The constructors are the part types of the data model
  (\<^verbatim>\<open>NONE\<close>, the \<^verbatim>\<open>BUTTON_*\<close> family with its virtual group \<^verbatim>\<open>BUTTON\<close>, the titlebar
  parts, the corners and edges, \<^verbatim>\<open>CLIENT\<close>, \<^verbatim>\<open>FRAME\<close>, the non-decoration node kinds and
  \<^verbatim>\<open>ALL\<close>) in declaration order, which is the order the range tests of
  \<^verbatim>\<open>ssd_part_contains\<close> read: the buttons first, from the close button on, then the
  titlebar parts up to the title, then corners and edges, then the client area.
  \<open>part_ord\<close> is the integer value of an enumerator. The enumerators that neither the
  source files nor the specification name (the two titlebar corner parts and the node
  kinds after \<^verbatim>\<open>FRAME\<close>) and the place of the group \<^verbatim>\<open>BUTTON\<close>, right after the last
  button, are taken from the header of labwc, from which this code derives.
\<close>

datatype ssd_part_type =
    LAB_SSD_NONE
  | LAB_SSD_BUTTON_CLOSE
  | LAB_SSD_BUTTON_MAXIMIZE
  | LAB_SSD_BUTTON_ICONIFY
  | LAB_SSD_BUTTON_WINDOW_ICON
  | LAB_SSD_BUTTON_WINDOW_MENU
  | LAB_SSD_BUTTON_SHADE
  | LAB_SSD_BUTTON_OMNIPRESENT
  | LAB_SSD_BUTTON
  | LAB_SSD_PART_TITLEBAR
  | LAB_SSD_PART_TITLEBAR_CORNER_RIGHT
  | LAB_SSD_PART_TITLEBAR_CORNER_LEFT
  | LAB_SSD_PART_TITLE
  | LAB_SSD_PART_CORNER_TOP_LEFT
  | LAB_SSD_PART_CORNER_TOP_RIGHT
  | LAB_SSD_PART_CORNER_BOTTOM_RIGHT
  | LAB_SSD_PART_CORNER_BOTTOM_LEFT
  | LAB_SSD_PART_TOP
  | LAB_SSD_PART_RIGHT
  | LAB_SSD_PART_BOTTOM
  | LAB_SSD_PART_LEFT
  | LAB_SSD_CLIENT
  | LAB_SSD_FRAME
  | LAB_SSD_ROOT
  | LAB_SSD_MENU
  | LAB_SSD_OSD
  | LAB_SSD_LAYER_SURFACE
  | LAB_SSD_LAYER_SUBSURFACE
  | LAB_SSD_UNMANAGED
  | LAB_SSD_ALL



section \<open>Geometry\<close>

record wlr_box =
  box_x :: int
  box_y :: int
  box_width :: int
  box_height :: int

record wlr_cursor =
  cursor_x :: real
  cursor_y :: real

text \<open>
  \<^verbatim>\<open>wlr_box_empty\<close> and \<^verbatim>\<open>wlr_box_contains_point\<close> of the wlroots library
  (\<^verbatim>\<open>util/box.c\<close>): a \<^verbatim>\<open>NULL\<close> box and a box without positive width and height are
  empty, and an empty box contains no point.
\<close>

definition wlr_box_empty :: "wlr_box option \<Rightarrow> bool" where
  "wlr_box_empty box =
    (case box of None \<Rightarrow> True | Some b \<Rightarrow> box_width b \<le> 0 \<or> box_height b \<le> 0)"

definition wlr_box_contains_point :: "wlr_box \<Rightarrow> real \<Rightarrow> real \<Rightarrow> bool" where
  "wlr_box_contains_point b x y =
    (if wlr_box_empty (Some b) then False
     else real_of_int (box_x b) \<le> x \<and> x < real_of_int (box_x b + box_width b)
        \<and> real_of_int (box_y b) \<le> y \<and> y < real_of_int (box_y b + box_height b))"

section \<open>Decoration model\<close>

text \<open>
  Modelled from the spec: \<^verbatim>\<open>struct view\<close> is declared in \<^verbatim>\<open>view.h\<close>, which is not among
  the source files. The record has the members that \<^verbatim>\<open>ssd.c\<close> reads: the
  decoration-enabled flag, the fullscreen flag, the titlebar-hidden flag and the current
  geometry box.
\<close>

record view =
  ssd_enabled :: bool
  fullscreen :: bool
  ssd_titlebar_hidden :: bool
  current :: wlr_box

text \<open>
  A scene node as far as the classifier reads it. A \<^verbatim>\<open>struct wlr_scene_tree\<close> starts with
  its node, so a tree and its node share one address and \<^verbatim>\<open>node->parent->node.parent\<close>
  is \<open>node_parent\<close> read twice. The scene is a store from addresses to nodes.
\<close>

datatype wlr_scene_node_type =
  WLR_SCENE_NODE_TREE | WLR_SCENE_NODE_RECT | WLR_SCENE_NODE_BUFFER

record wlr_scene_node =
  node_type :: wlr_scene_node_type
  node_parent :: "addr option"
  node_enabled :: bool

type_synonym scene = "addr \<Rightarrow> wlr_scene_node"

text \<open>\<^verbatim>\<open>struct ssd_part\<close>, \<^verbatim>\<open>struct ssd_sub_tree\<close> and \<^verbatim>\<open>struct ssd\<close> (ssd-internal.h).
  The list of a sub-tree holds its parts in the order \<^verbatim>\<open>wl_list_for_each\<close> visits them.
  \<open>ssd_group\<close> is the anonymous struct of the titlebar, border and shadow members.\<close>

record ssd_part =
  part_type :: ssd_part_type
  part_node :: "addr option"

record ssd_sub_tree =
  sub_tree :: "addr option"
  sub_parts :: "ssd_part list"

record ssd_group =
  grp_tree :: "addr option"
  grp_active :: ssd_sub_tree
  grp_inactive :: ssd_sub_tree

record ssd =
  ssd_view :: "view option"
  ssd_tree :: "addr option"
  extents :: ssd_sub_tree
  titlebar :: ssd_group
  border :: ssd_group
  shadow :: ssd_group

text \<open>
  What the classifier reads beside its arguments: the configuration value
  \<^verbatim>\<open>rc.resize_corner_range\<close>, the theme's \<^verbatim>\<open>titlebar_height\<close>
  (\<^verbatim>\<open>view->server->theme\<close>), the scene, and two helpers that are defined outside the
  source files and enter as parameters: \<^verbatim>\<open>view_effective_height(view, use_pending)\<close>
  and \<^verbatim>\<open>lab_wlr_surface_from_node(node)\<close>, the surface a node shows or \<^verbatim>\<open>NULL\<close>.
\<close>

record ssd_ctx =
  rc_resize_corner_range :: int
  theme_titlebar_height :: int
  view_effective_height :: "view \<Rightarrow> bool \<Rightarrow> int"
  nodes :: scene
  lab_wlr_surface_from_node :: "addr \<Rightarrow> addr option"

section \<open>Part classifier\<close>

text \<open>The box \<^verbatim>\<open>view_box\<close> of \<^verbatim>\<open>get_resizing_type\<close> before the containment test.\<close>

definition effective_box :: "ssd_ctx \<Rightarrow> view \<Rightarrow> wlr_box" where
  "effective_box ctx v =
    (let view_box = current v;
         view_box = view_box\<lparr>box_height := view_effective_height ctx v False\<rparr>
     in if \<not> ssd_titlebar_hidden v
        then view_box\<lparr>box_y := box_y view_box - theme_titlebar_height ctx,
                      box_height := box_height view_box + theme_titlebar_height ctx\<rparr>
        else view_box)"

text \<open>The locals \<^verbatim>\<open>corner_height\<close> and \<^verbatim>\<open>corner_width\<close>:
  \<^verbatim>\<open>MAX(0, MIN(rc.resize_corner_range, view_box.height / 2))\<close>.\<close>

definition corner_height :: "ssd_ctx \<Rightarrow> wlr_box \<Rightarrow> int" where
  "corner_height ctx view_box = max 0 (min (rc_resize_corner_range ctx) (box_height view_box sdiv 2))"

definition corner_width :: "ssd_ctx \<Rightarrow> wlr_box \<Rightarrow> int" where
  "corner_width ctx view_box = max 0 (min (rc_resize_corner_range ctx) (box_width view_box sdiv 2))"

definition get_resizing_type :: "ssd_ctx \<Rightarrow> ssd option \<Rightarrow> wlr_cursor option \<Rightarrow> ssd_part_type" where
  "get_resizing_type ctx ssd cursor =
    (case (case ssd of None \<Rightarrow> None | Some s \<Rightarrow> ssd_view s) of
       None \<Rightarrow> LAB_SSD_NONE
     | Some v \<Rightarrow>
       (case cursor of
          None \<Rightarrow> LAB_SSD_NONE
        | Some c \<Rightarrow>
          if \<not> ssd_enabled v \<or> fullscreen v then LAB_SSD_NONE
          else
            let view_box = effective_box ctx v in
            if wlr_box_contains_point view_box (cursor_x c) (cursor_y c) then LAB_SSD_NONE
            else
              let left = cursor_x c < real_of_int (box_x view_box + corner_width ctx view_box);
                  right = cursor_x c
                    > real_of_int (box_x view_box + box_width view_box - corner_width ctx view_box);
                  top = cursor_y c < real_of_int (box_y view_box + corner_height ctx view_box);
                  bottom = cursor_y c
                    > real_of_int (box_y view_box + box_height view_box - corner_height ctx view_box)
              in if top \<and> left then LAB_SSD_PART_CORNER_TOP_LEFT
                 else if top \<and> right then LAB_SSD_PART_CORNER_TOP_RIGHT
                 else if bottom \<and> left then LAB_SSD_PART_CORNER_BOTTOM_LEFT
                 else if bottom \<and> right then LAB_SSD_PART_CORNER_BOTTOM_RIGHT
                 else if top then LAB_SSD_PART_TOP
                 else if bottom then LAB_SSD_PART_BOTTOM
                 else if left then LAB_SSD_PART_LEFT
                 else if right then LAB_SSD_PART_RIGHT
                 else LAB_SSD_NONE))"

text \<open>The chain of tests of \<^verbatim>\<open>ssd_get_part_type\<close> that picks \<^verbatim>\<open>part_list\<close>
  (\<open>None\<close> is the initial \<^verbatim>\<open>NULL\<close>); the extents test is commented out in the source.\<close>

definition find_part_list :: "ssd_ctx \<Rightarrow> ssd \<Rightarrow> addr \<Rightarrow> ssd_part list option" where
  "find_part_list ctx s n =
    (let parent = node_parent (nodes ctx n);
         grandparent = (case parent of None \<Rightarrow> None | Some p \<Rightarrow> node_parent (nodes ctx p));
         greatgrandparent =
           (case grandparent of None \<Rightarrow> None | Some g \<Rightarrow> node_parent (nodes ctx g))
     in if parent = sub_tree (grp_active (titlebar s)) then Some (sub_parts (grp_active (titlebar s)))
        else if grandparent = sub_tree (grp_active (titlebar s))
          then Some (sub_parts (grp_active (titlebar s)))
        else if greatgrandparent = sub_tree (grp_active (titlebar s))
          then Some (sub_parts (grp_active (titlebar s)))
        else if parent = sub_tree (grp_active (border s)) then Some (sub_parts (grp_active (border s)))
        else if parent = sub_tree (grp_inactive (titlebar s))
          then Some (sub_parts (grp_inactive (titlebar s)))
        else if grandparent = sub_tree (grp_inactive (titlebar s))
          then Some (sub_parts (grp_inactive (titlebar s)))
        else if greatgrandparent = sub_tree (grp_inactive (titlebar s))
          then Some (sub_parts (grp_inactive (titlebar s)))
        else if parent = sub_tree (grp_inactive (border s))
          then Some (sub_parts (grp_inactive (border s)))
        else None)"

text \<open>The \<^verbatim>\<open>wl_list_for_each\<close> loop: the type of the first part whose node is the input
  node, \<^verbatim>\<open>LAB_SSD_NONE\<close> (the initial value of \<^verbatim>\<open>part_type\<close>) when there is none.\<close>

fun scan_parts :: "addr \<Rightarrow> ssd_part list \<Rightarrow> ssd_part_type" where
  "scan_parts n [] = LAB_SSD_NONE"
| "scan_parts n (part # rest) =
    (if Some n = part_node part then part_type part else scan_parts n rest)"

text \<open>The value of \<^verbatim>\<open>part_type\<close> after the loop: the node-based lookup.\<close>

definition lookup_part_type :: "ssd_ctx \<Rightarrow> ssd \<Rightarrow> addr \<Rightarrow> ssd_part_type" where
  "lookup_part_type ctx s n =
    (case find_part_list ctx s n of None \<Rightarrow> LAB_SSD_NONE | Some ps \<Rightarrow> scan_parts n ps)"

definition ssd_get_part_type ::
  "ssd_ctx \<Rightarrow> ssd option \<Rightarrow> addr option \<Rightarrow> wlr_cursor option \<Rightarrow> ssd_part_type" where
  "ssd_get_part_type ctx ssd node cursor =
    (case node of
       None \<Rightarrow> LAB_SSD_NONE
     | Some n \<Rightarrow>
       if node_type (nodes ctx n) = WLR_SCENE_NODE_BUFFER \<and> lab_wlr_surface_from_node ctx n \<noteq> None
       then LAB_SSD_CLIENT
       else
         (case ssd of
            None \<Rightarrow> LAB_SSD_NONE
          | Some s \<Rightarrow>
            let part_type = lookup_part_type ctx s n in
            if part_type = LAB_SSD_NONE then part_type
            else
              let resizing_type = get_resizing_type ctx ssd cursor in
              if resizing_type \<noteq> LAB_SSD_NONE then resizing_type else part_type))"

text \<open>\<^verbatim>\<open>wlr_scene_node_set_enabled\<close> (wlroots) stores the flag in the node.
  \<open>enable_tree\<close> is the call \<^verbatim>\<open>wlr_scene_node_set_enabled(&tree->node, enabled)\<close>, which
  dereferences \<^verbatim>\<open>tree\<close>.\<close>

definition wlr_scene_node_set_enabled :: "scene \<Rightarrow> addr \<Rightarrow> bool \<Rightarrow> scene" where
  "wlr_scene_node_set_enabled sc a enabled = sc(a := (sc a)\<lparr>node_enabled := enabled\<rparr>)"

definition enable_tree :: "scene \<Rightarrow> addr option \<Rightarrow> bool \<Rightarrow> fault + scene" where
  "enable_tree sc tree enabled =
    (case tree of None \<Rightarrow> Inl Null_dereference
     | Some a \<Rightarrow> Inr (wlr_scene_node_set_enabled sc a enabled))"

definition enable_tree_if_present :: "scene \<Rightarrow> addr option \<Rightarrow> bool \<Rightarrow> fault + scene" where
  "enable_tree_if_present sc tree enabled =
    (case tree of None \<Rightarrow> Inr sc | Some a \<Rightarrow> enable_tree sc tree enabled)"

definition and_then :: "fault + 'a \<Rightarrow> ('a \<Rightarrow> fault + 'b) \<Rightarrow> fault + 'b" where
  "and_then r f = (case r of Inl e \<Rightarrow> Inl e | Inr x \<Rightarrow> f x)"

definition ssd_set_active :: "scene \<Rightarrow> ssd option \<Rightarrow> bool \<Rightarrow> fault + scene" where
  "ssd_set_active sc ssd active =
    (case ssd of
       None \<Rightarrow> Inr sc
     | Some s \<Rightarrow>
       and_then (enable_tree sc (sub_tree (grp_active (border s))) active) (\<lambda>sc.
       and_then (enable_tree sc (sub_tree (grp_active (titlebar s))) active) (\<lambda>sc.
       and_then (enable_tree_if_present sc (sub_tree (grp_active (shadow s))) active) (\<lambda>sc.
       and_then (enable_tree sc (sub_tree (grp_inactive (border s))) (\<not> active)) (\<lambda>sc.
       and_then (enable_tree sc (sub_tree (grp_inactive (titlebar s))) (\<not> active)) (\<lambda>sc.
       enable_tree_if_present sc (sub_tree (grp_inactive (shadow s))) (\<not> active)))))))"

section \<open>Server state\<close>

text \<open>
  Modelled from the spec: \<^verbatim>\<open>enum input_mode\<close> is declared in \<^verbatim>\<open>labwc.h\<close>, which is not
  among the source files; the modes are those of the session state machine,
  \<^verbatim>\<open>PASSTHROUGH\<close> (idle), \<^verbatim>\<open>MOVE\<close>, \<^verbatim>\<open>RESIZE\<close> and \<^verbatim>\<open>WINDOW_SWITCHER\<close>.
\<close>

datatype input_state =
    LAB_INPUT_STATE_PASSTHROUGH
  | LAB_INPUT_STATE_MOVE
  | LAB_INPUT_STATE_RESIZE
  | LAB_INPUT_STATE_WINDOW_SWITCHER

text \<open>
  Modelled from the spec: \<^verbatim>\<open>enum lab_cycle_dir\<close> is declared outside the source files;
  the directions of the window cycle are forward and backward.
\<close>

datatype lab_cycle_dir = LAB_CYCLE_DIR_FORWARD | LAB_CYCLE_DIR_BACKWARD

text \<open>
  The window switcher changes the scene graph only through wlroots
  (\<^verbatim>\<open>wlr_scene_node_reparent\<close>, \<^verbatim>\<open>_place_above\<close>, \<^verbatim>\<open>_lower_to_bottom\<close>,
  \<^verbatim>\<open>_set_enabled\<close>, \<^verbatim>\<open>_destroy\<close>) and never reads back what it changed. These calls,
  and the calls into the seat and cursor modules, are recorded with their arguments, in
  program order, in the field \<open>effects\<close> of the server.
\<close>

datatype effect =
    Scene_node_reparent addr "addr option"
  | Scene_node_place_above addr addr
  | Scene_node_lower_to_bottom addr
  | Scene_node_set_enabled addr bool
  | Scene_node_destroy addr
  | Seat_focus_override_begin input_state
  | Seat_focus_override_end
  | Cursor_update_focus

text \<open>\<open>mr_tree\<close> is the scene tree of the outline, \<^verbatim>\<open>preview_outline->tree\<close>.\<close>

record multi_rect =
  mr_tree :: addr

text \<open>
  Modelled from the spec: \<^verbatim>\<open>struct osd_state\<close> and \<^verbatim>\<open>struct server\<close> are declared in
  \<^verbatim>\<open>labwc.h\<close>, which is not among the source files. The records have the members
  that the source files read or write: the window-cycle state (selected window, preview
  node, its original parent and anchor sibling, whether it was enabled, the outline)
  and the interactive session state (input mode, grabbed window, grab cursor
  coordinates, grab box, the seat's cursor). \<open>views\<close> is the list \<^verbatim>\<open>server->views\<close> of
  view addresses in stacking order, topmost first, as \<^verbatim>\<open>head->next\<close> walks it.
\<close>

record osd_state =
  cycle_view :: "addr option"
  preview_was_enabled :: bool
  preview_node :: "addr option"
  preview_parent :: "addr option"
  preview_anchor :: "addr option"
  preview_outline :: "multi_rect option"

record server =
  input_mode :: input_state
  views :: "addr list"
  osd :: osd_state
  grabbed_view :: "addr option"
  grab_x :: real
  grab_y :: real
  grab_box :: wlr_box
  seat_cursor :: wlr_cursor
  effects :: "effect list"

definition record_effect :: "effect \<Rightarrow> server \<Rightarrow> server" where
  "record_effect e s = s\<lparr>effects := effects s @ [e]\<rparr>"

text \<open>
  Modelled from the spec: \<^verbatim>\<open>seat_focus_override_begin\<close>, \<^verbatim>\<open>seat_focus_override_end\<close>
  and \<^verbatim>\<open>cursor_update_focus\<close> are defined outside the source files. Beginning an
  override switches the input mode to the requested one, ending it restores the idle
  mode; what they do to focus and cursor image is recorded as an effect.
\<close>

definition seat_focus_override_begin :: "input_state \<Rightarrow> server \<Rightarrow> server" where
  "seat_focus_override_begin mode s =
    record_effect (Seat_focus_override_begin mode) (s\<lparr>input_mode := mode\<rparr>)"

definition seat_focus_override_end :: "server \<Rightarrow> server" where
  "seat_focus_override_end s =
    record_effect Seat_focus_override_end (s\<lparr>input_mode := LAB_INPUT_STATE_PASSTHROUGH\<rparr>)"

definition cursor_update_focus :: "server \<Rightarrow> server" where
  "cursor_update_focus s = record_effect Cursor_update_focus s"

section \<open>Window-cycle controller\<close>

text \<open>
  What \<^verbatim>\<open>osd.c\<close> takes from outside the source files, as parameters:
  \<^verbatim>\<open>view_matches_criteria(view, rc.window_switcher.criteria)\<close>, the member
  \<^verbatim>\<open>scene_tree\<close> of the view at an address, and \<^verbatim>\<open>lab_wlr_scene_get_prev_node\<close>.
\<close>

record osd_env =
  view_matches_criteria :: "addr \<Rightarrow> bool"
  view_scene_tree :: "addr \<Rightarrow> addr option"
  lab_wlr_scene_get_prev_node :: "addr \<Rightarrow> addr option"

text \<open>
  Modelled from the spec: \<^verbatim>\<open>view_next_no_head_stop\<close> and \<^verbatim>\<open>view_prev_no_head_stop\<close> are
  defined in \<^verbatim>\<open>view.c\<close>, which is not among the source files. They advance by one in
  the requested direction over the stacking-ordered window list filtered by the match
  criteria, and do not stop at the list head: the walk wraps around. It starts behind
  the given view, or at the list head when there is none, so that from no selection
  the first candidate forwards is the topmost window and backwards the bottom one; a
  walk that comes back to its start without a match returns the start. A start view
  that is not in the list is outside this model: the window list then counts as the
  candidates.
\<close>

definition views_after :: "addr list \<Rightarrow> addr option \<Rightarrow> addr list" where
  "views_after vs start =
    (case start of
       None \<Rightarrow> vs
     | Some v \<Rightarrow> tl (dropWhile (\<lambda>x. x \<noteq> v) vs) @ takeWhile (\<lambda>x. x \<noteq> v) vs)"

definition views_before :: "addr list \<Rightarrow> addr option \<Rightarrow> addr list" where
  "views_before vs start =
    (case start of
       None \<Rightarrow> rev vs
     | Some v \<Rightarrow> rev (takeWhile (\<lambda>x. x \<noteq> v) vs) @ rev (tl (dropWhile (\<lambda>x. x \<noteq> v) vs)))"

definition view_next_no_head_stop ::
  "addr list \<Rightarrow> addr option \<Rightarrow> (addr \<Rightarrow> bool) \<Rightarrow> addr option" where
  "view_next_no_head_stop head start criteria =
    (case find criteria (views_after head start) of Some v \<Rightarrow> Some v | None \<Rightarrow> start)"

definition view_prev_no_head_stop ::
  "addr list \<Rightarrow> addr option \<Rightarrow> (addr \<Rightarrow> bool) \<Rightarrow> addr option" where
  "view_prev_no_head_stop head start criteria =
    (case find criteria (views_before head start) of Some v \<Rightarrow> Some v | None \<Rightarrow> start)"

definition get_next_cycle_view ::
  "osd_env \<Rightarrow> server \<Rightarrow> addr option \<Rightarrow> lab_cycle_dir \<Rightarrow> addr option" where
  "get_next_cycle_view env s start_view dir =
    (let forwards = (dir = LAB_CYCLE_DIR_FORWARD);
         iter = (if forwards then view_next_no_head_stop else view_prev_no_head_stop);
         criteria = view_matches_criteria env;
         start_view = (if start_view = None \<and> forwards then iter (views s) None criteria
                       else start_view)
     in iter (views s) start_view criteria)"

definition restore_preview_node :: "server \<Rightarrow> server" where
  "restore_preview_node s =
    (case preview_node (osd s) of
       None \<Rightarrow> s
     | Some n \<Rightarrow>
       let s = record_effect (Scene_node_reparent n (preview_parent (osd s))) s;
           s = (case preview_anchor (osd s) of
                  Some a \<Rightarrow> record_effect (Scene_node_place_above n a) s
                | None \<Rightarrow> record_effect (Scene_node_lower_to_bottom n) s);
           s = (if \<not> preview_was_enabled (osd s)
                then record_effect (Scene_node_set_enabled n False) s else s)
       in s\<lparr>osd := (osd s)\<lparr>preview_node := None, preview_parent := None,
                              preview_anchor := None\<rparr>\<rparr>)"

definition osd_finish :: "server \<Rightarrow> server" where
  "osd_finish s =
    (let s = restore_preview_node s;
         s = seat_focus_override_end s;
         s = s\<lparr>osd := (osd s)\<lparr>preview_node := None, preview_anchor := None,
                                cycle_view := None\<rparr>\<rparr>;
         s = (case preview_outline (osd s) of
                Some outline \<Rightarrow>
                  (record_effect (Scene_node_destroy (mr_tree outline)) s)
                    \<lparr>osd := (osd s)\<lparr>preview_outline := None\<rparr>\<rparr>
              | None \<Rightarrow> s)
     in cursor_update_focus s)"

definition osd_begin :: "osd_env \<Rightarrow> server \<Rightarrow> lab_cycle_dir \<Rightarrow> server" where
  "osd_begin env s direction =
    (if input_mode s \<noteq> LAB_INPUT_STATE_PASSTHROUGH then s
     else
       let s = s\<lparr>osd := (osd s)\<lparr>cycle_view :=
                   get_next_cycle_view env s (cycle_view (osd s)) direction\<rparr>\<rparr>;
           s = seat_focus_override_begin LAB_INPUT_STATE_WINDOW_SWITCHER s
       in cursor_update_focus s)"

definition osd_cycle :: "osd_env \<Rightarrow> server \<Rightarrow> lab_cycle_dir \<Rightarrow> fault + server" where
  "osd_cycle env s direction =
    (if input_mode s \<noteq> LAB_INPUT_STATE_WINDOW_SWITCHER then Inl Assertion_failed
     else Inr (s\<lparr>osd := (osd s)\<lparr>cycle_view :=
                 get_next_cycle_view env s (cycle_view (osd s)) direction\<rparr>\<rparr>))"

text \<open>\<^verbatim>\<open>osd_on_view_destroy(view)\<close>, with \<^verbatim>\<open>view->server\<close> as the state. The node
  \<^verbatim>\<open>&view->scene_tree->node\<close> has the address of the tree.\<close>

definition osd_on_view_destroy :: "osd_env \<Rightarrow> server \<Rightarrow> addr option \<Rightarrow> fault + server" where
  "osd_on_view_destroy env s view =
    (case view of
       None \<Rightarrow> Inl Assertion_failed
     | Some v \<Rightarrow>
       if input_mode s \<noteq> LAB_INPUT_STATE_WINDOW_SWITCHER then Inr s
       else
         let s =
           (if cycle_view (osd s) = Some v then
              let s = s\<lparr>osd := (osd s)\<lparr>cycle_view :=
                          get_next_cycle_view env s (cycle_view (osd s))
                            LAB_CYCLE_DIR_BACKWARD\<rparr>\<rparr>
              in if cycle_view (osd s) = Some v \<or> cycle_view (osd s) = None
                 then osd_finish s else s
            else s)
         in Inr
           (case view_scene_tree env v of
              None \<Rightarrow> s
            | Some node \<Rightarrow>
              if preview_anchor (osd s) = Some node
              then s\<lparr>osd := (osd s)\<lparr>preview_anchor :=
                       lab_wlr_scene_get_prev_node env node\<rparr>\<rparr>
              else s))"

section \<open>Interactive session controller\<close>

text \<open>\<^verbatim>\<open>max_move_scale\<close>, in double arithmetic: the difference, the quotient, the
  product and the second difference are each rounded. The quotient by a zero
  \<^verbatim>\<open>size_old\<close> is infinite or not a number, and so is the value then converted to
  \<^verbatim>\<open>int\<close>, which C leaves undefined.\<close>

definition max_move_scale :: "real \<Rightarrow> real \<Rightarrow> real \<Rightarrow> real \<Rightarrow> fault + int" where
  "max_move_scale pos_cursor pos_old size_old size_new =
    (if size_old = 0 then Inl Undefined_conversion
     else
       let anchor_frac = double_div (double_sub pos_cursor pos_old) size_old;
           pos_new = c_int_of_double (double_sub pos_cursor (double_mul size_new anchor_frac));
           pos_new = (if real_of_int pos_new < pos_old then c_int_of_double pos_old else pos_new)
       in Inr pos_new)"

text \<open>\<^verbatim>\<open>interactive_anchor_to_cursor(server, geo)\<close> returns the server and the box
  \<^verbatim>\<open>*geo\<close> as it leaves them.\<close>

definition interactive_anchor_to_cursor ::
  "server \<Rightarrow> wlr_box option \<Rightarrow> fault + (server \<times> wlr_box option)" where
  "interactive_anchor_to_cursor s geo =
    (if input_mode s \<noteq> LAB_INPUT_STATE_MOVE then Inl Assertion_failed
     else if wlr_box_empty geo then Inr (s, geo)
     else
       (case geo of
          None \<Rightarrow> Inr (s, geo)
        | Some g \<Rightarrow>
          and_then (max_move_scale (grab_x s) (real_of_int (box_x (grab_box s)))
                      (real_of_int (box_width (grab_box s))) (real_of_int (box_width g))) (\<lambda>x.
          let s = s\<lparr>grab_box := (grab_box s)\<lparr>box_x := x\<rparr>\<rparr> in
          and_then (max_move_scale (grab_y s) (real_of_int (box_y (grab_box s)))
                      (real_of_int (box_height (grab_box s))) (real_of_int (box_height g))) (\<lambda>y.
          let s = s\<lparr>grab_box := (grab_box s)\<lparr>box_y := y\<rparr>\<rparr>;
              s = s\<lparr>grab_box := (grab_box s)\<lparr>box_width := box_width g\<rparr>\<rparr>;
              s = s\<lparr>grab_box := (grab_box s)\<lparr>box_height := box_height g\<rparr>\<rparr>;
              g = g\<lparr>box_x := c_int_of_double
                     (double_add (real_of_int (box_x (grab_box s)))
                        (double_sub (cursor_x (seat_cursor s)) (grab_x s)))\<rparr>;
              g = g\<lparr>box_y := c_int_of_double
                     (double_add (real_of_int (box_y (grab_box s)))
                        (double_sub (cursor_y (seat_cursor s)) (grab_y s)))\<rparr>
          in Inr (s, Some g)))))"

text \<open>
  Modelled from the spec: \<^verbatim>\<open>enum view_edge\<close> is declared in \<^verbatim>\<open>view.h\<close>, which is not
  among the source files; its values are the results of the snap detection.
\<close>

datatype view_edge =
    VIEW_EDGE_INVALID
  | VIEW_EDGE_LEFT
  | VIEW_EDGE_RIGHT
  | VIEW_EDGE_UP
  | VIEW_EDGE_DOWN
  | VIEW_EDGE_CENTER

text \<open>
  Modelled from the spec: \<^verbatim>\<open>struct output\<close> and \<^verbatim>\<open>output_is_usable\<close> are defined
  outside the source files. An output has a usable-area rectangle and a position in the
  output layout; an output that is absent, disconnected or disabled is unusable, and
  \<open>output_usable\<close> is the answer for an output that is present.
\<close>

record lab_output =
  output_usable :: bool
  usable_area :: wlr_box
  layout_x :: int
  layout_y :: int

definition output_is_usable :: "lab_output option \<Rightarrow> bool" where
  "output_is_usable out = (case out of None \<Rightarrow> False | Some o' \<Rightarrow> output_usable o')"

text \<open>
  The configuration values \<^verbatim>\<open>rc.snap_edge_range\<close> and \<^verbatim>\<open>rc.snap_top_maximize\<close>, and
  two helpers outside the source files as parameters: \<^verbatim>\<open>view_is_floating\<close>, applied to
  the grabbed view, and \<^verbatim>\<open>output_nearest_to_cursor\<close>.
\<close>

record interactive_env =
  rc_snap_edge_range :: int
  rc_snap_top_maximize :: bool
  view_is_floating :: "addr option \<Rightarrow> bool"
  output_nearest_to_cursor :: "server \<Rightarrow> lab_output option"

text \<open>\<^verbatim>\<open>wlr_output_layout_output_coords\<close> (wlroots) translates layout coordinates into
  the coordinates of an output of the layout: it subtracts the output's position.\<close>

definition wlr_output_layout_output_coords :: "lab_output \<Rightarrow> real \<times> real \<Rightarrow> real \<times> real" where
  "wlr_output_layout_output_coords out p =
    (fst p - real_of_int (layout_x out), snd p - real_of_int (layout_y out))"

text \<open>\<^verbatim>\<open>edge_from_cursor(seat, dest_output)\<close> with \<^verbatim>\<open>seat->server\<close> as the state; the
  second component of the result is \<^verbatim>\<open>*dest_output\<close> as the call leaves it. The error
  message logged for an unusable output is not part of the state. A usable output is
  not \<^verbatim>\<open>NULL\<close>, so the \<open>None\<close> case behind the test is never taken.\<close>

definition edge_from_cursor ::
  "interactive_env \<Rightarrow> server \<Rightarrow> lab_output option \<Rightarrow> view_edge \<times> lab_output option" where
  "edge_from_cursor env s dest_output =
    (if \<not> view_is_floating env (grabbed_view s) then (VIEW_EDGE_INVALID, dest_output)
     else
       let snap_range = rc_snap_edge_range env in
       if snap_range = 0 then (VIEW_EDGE_INVALID, dest_output)
       else
         let out = output_nearest_to_cursor env s in
         if \<not> output_is_usable out then (VIEW_EDGE_INVALID, dest_output)
         else
           (case out of
              None \<Rightarrow> (VIEW_EDGE_INVALID, dest_output)
            | Some out' \<Rightarrow>
              let (x, y) = wlr_output_layout_output_coords out'
                             (cursor_x (seat_cursor s), cursor_y (seat_cursor s));
                  area = usable_area out'
              in (if x \<le> real_of_int (box_x area + snap_range) then VIEW_EDGE_LEFT
                  else if x \<ge> real_of_int (box_x area + box_width area - snap_range)
                    then VIEW_EDGE_RIGHT
                  else if y \<le> real_of_int (box_y area + snap_range)
                    then (if rc_snap_top_maximize env then VIEW_EDGE_CENTER else VIEW_EDGE_UP)
                  else if y \<ge> real_of_int (box_y area + box_height area - snap_range)
                    then VIEW_EDGE_DOWN
                  else VIEW_EDGE_INVALID,
                  out)))"

section \<open>The specification's words, as definitions\<close>





text \<open>
  A decoration whose border and titlebar sub-trees exist and none of whose active
  sub-trees (border, titlebar, shadow) is also one of its inactive sub-trees; every
  sub-tree is a scene tree of its own. \<open>tree_enabled\<close> reads the flag
  \<^verbatim>\<open>tree->node.enabled\<close> of a sub-tree that is present.
\<close>

definition active_trees :: "ssd \<Rightarrow> addr option list" where
  "active_trees s = [sub_tree (grp_active (border s)), sub_tree (grp_active (titlebar s)),
     sub_tree (grp_active (shadow s))]"

definition inactive_trees :: "ssd \<Rightarrow> addr option list" where
  "inactive_trees s = [sub_tree (grp_inactive (border s)), sub_tree (grp_inactive (titlebar s)),
     sub_tree (grp_inactive (shadow s))]"

definition ssd_trees_separate :: "ssd \<Rightarrow> bool" where
  "ssd_trees_separate s =
    (sub_tree (grp_active (border s)) \<noteq> None \<and> sub_tree (grp_active (titlebar s)) \<noteq> None
     \<and> sub_tree (grp_inactive (border s)) \<noteq> None \<and> sub_tree (grp_inactive (titlebar s)) \<noteq> None
     \<and> list_all (\<lambda>t. t = None \<or> t \<notin> set (inactive_trees s)) (active_trees s))"

definition tree_enabled :: "scene \<Rightarrow> addr option \<Rightarrow> bool option" where
  "tree_enabled sc tree = (case tree of None \<Rightarrow> None | Some a \<Rightarrow> Some (node_enabled (sc a)))"

text \<open>The cursor of the seat in the coordinates of an output.\<close>

definition local_cursor :: "lab_output \<Rightarrow> server \<Rightarrow> real \<times> real" where
  "local_cursor out s =
    wlr_output_layout_output_coords out (cursor_x (seat_cursor s), cursor_y (seat_cursor s))"

text \<open>
  Restoring the preview, in the specification's words: the previewed node goes back to
  its original parent, immediately above its recorded anchor sibling or to the very
  bottom when it had none, and is disabled again if it was disabled before the preview.
  Destroying the outline is the one call on its tree.
\<close>

definition preview_restore_effects :: "osd_state \<Rightarrow> effect list" where
  "preview_restore_effects st =
    (case preview_node st of
       None \<Rightarrow> []
     | Some n \<Rightarrow>
       [Scene_node_reparent n (preview_parent st),
        (case preview_anchor st of
           Some a \<Rightarrow> Scene_node_place_above n a
         | None \<Rightarrow> Scene_node_lower_to_bottom n)]
       @ (if preview_was_enabled st then [] else [Scene_node_set_enabled n False]))"

definition outline_destroy_effects :: "osd_state \<Rightarrow> effect list" where
  "outline_destroy_effects st =
    (case preview_outline st of
       None \<Rightarrow> []
     | Some outline \<Rightarrow> [Scene_node_destroy (mr_tree outline)])"

section \<open>Concrete inputs\<close>

text \<open>
  A decorated 100x100 window at the origin with a visible titlebar of height 30. The
  scene trees of its decoration are the addresses 1 to 11; node 20 is the title of the
  active titlebar and is stored in its part list, node 21 is a child of the same
  sub-tree that no part stores, node 30 is the top border of the active border, and
  node 50 is a buffer showing the client surface 60.
\<close>

definition ex_view :: view where
  "ex_view = \<lparr>ssd_enabled = True, fullscreen = False, ssd_titlebar_hidden = False,
     current = \<lparr>box_x = 0, box_y = 0, box_width = 100, box_height = 100\<rparr>\<rparr>"

definition ex_scene :: scene where
  "ex_scene = (\<lambda>a.
     \<lparr>node_type = (if a \<le> 11 then WLR_SCENE_NODE_TREE
                   else if a = 50 then WLR_SCENE_NODE_BUFFER else WLR_SCENE_NODE_RECT),
      node_parent = (if a = 20 \<or> a = 21 then Some 4 else if a = 30 then Some 7 else None),
      node_enabled = False\<rparr>)"

definition ex_ssd :: ssd where
  "ex_ssd = \<lparr>ssd_view = Some ex_view, ssd_tree = Some 1,
     extents = \<lparr>sub_tree = Some 2, sub_parts = []\<rparr>,
     titlebar = \<lparr>grp_tree = Some 3,
       grp_active = \<lparr>sub_tree = Some 4,
         sub_parts = [\<lparr>part_type = LAB_SSD_PART_TITLE, part_node = Some 20\<rparr>]\<rparr>,
       grp_inactive = \<lparr>sub_tree = Some 5, sub_parts = []\<rparr>\<rparr>,
     border = \<lparr>grp_tree = Some 6,
       grp_active = \<lparr>sub_tree = Some 7,
         sub_parts = [\<lparr>part_type = LAB_SSD_PART_TOP, part_node = Some 30\<rparr>]\<rparr>,
       grp_inactive = \<lparr>sub_tree = Some 8, sub_parts = []\<rparr>\<rparr>,
     shadow = \<lparr>grp_tree = Some 9,
       grp_active = \<lparr>sub_tree = Some 10, sub_parts = []\<rparr>,
       grp_inactive = \<lparr>sub_tree = Some 11, sub_parts = []\<rparr>\<rparr>\<rparr>"

definition ex_ctx :: ssd_ctx where
  "ex_ctx = \<lparr>rc_resize_corner_range = 8, theme_titlebar_height = 30,
     view_effective_height = (\<lambda>v use_pending. box_height (current v)),
     nodes = ex_scene, lab_wlr_surface_from_node = (\<lambda>a. if a = 50 then Some 60 else None)\<rparr>"

text \<open>A cursor two pixels outside the top left corner of the titlebar.\<close>

definition ex_cursor :: wlr_cursor where
  "ex_cursor = \<lparr>cursor_x = - 2, cursor_y = - 32\<rparr>"

text \<open>A server in idle mode with the three windows 1, 2, 3 (1 topmost), all of which
  match the switcher's criteria, and no selection.\<close>

definition ex_osd_env :: osd_env where
  "ex_osd_env = \<lparr>view_matches_criteria = (\<lambda>v. True), view_scene_tree = (\<lambda>v. None),
     lab_wlr_scene_get_prev_node = (\<lambda>n. None)\<rparr>"

definition ex_server :: server where
  "ex_server = \<lparr>input_mode = LAB_INPUT_STATE_PASSTHROUGH, views = [1, 2, 3],
     osd = \<lparr>cycle_view = None, preview_was_enabled = False, preview_node = None,
       preview_parent = None, preview_anchor = None, preview_outline = None\<rparr>,
     grabbed_view = None, grab_x = 0, grab_y = 0,
     grab_box = \<lparr>box_x = 0, box_y = 0, box_width = 0, box_height = 0\<rparr>,
     seat_cursor = \<lparr>cursor_x = 0, cursor_y = 0\<rparr>, effects = []\<rparr>"

text \<open>The switcher open on the only window 1, previewing node 40, whose parent was 41,
  whose anchor sibling was 42 and which was disabled before; the outline has tree 43.\<close>

definition ex_switching :: server where
  "ex_switching = ex_server\<lparr>input_mode := LAB_INPUT_STATE_WINDOW_SWITCHER, views := [1],
     osd := \<lparr>cycle_view = Some 1, preview_was_enabled = False, preview_node = Some 40,
       preview_parent = Some 41, preview_anchor = Some 42,
       preview_outline = Some \<lparr>mr_tree = 43\<rparr>\<rparr>\<rparr>"

text \<open>A move of a window grabbed at (150, 50) in the box (0, 0, 200, 100), the cursor
  now at (160, 60); and an output at layout position (1920, 0) with the usable area
  (0, 0, 1000, 800), with the cursor at (1925, 400).\<close>

definition ex_moving :: server where
  "ex_moving = ex_server\<lparr>input_mode := LAB_INPUT_STATE_MOVE, grabbed_view := Some 1,
     grab_x := 150, grab_y := 50,
     grab_box := \<lparr>box_x = 0, box_y = 0, box_width = 200, box_height = 100\<rparr>,
     seat_cursor := \<lparr>cursor_x = 160, cursor_y = 60\<rparr>\<rparr>"

text \<open>A maximized 1920x1080 window grabbed at (500, 300), the cursor now at (510, 320).\<close>

definition ex_unmaximizing :: server where
  "ex_unmaximizing = ex_server\<lparr>input_mode := LAB_INPUT_STATE_MOVE, grabbed_view := Some 1,
     grab_x := 500, grab_y := 300,
     grab_box := \<lparr>box_x = 0, box_y = 0, box_width = 1920, box_height = 1080\<rparr>,
     seat_cursor := \<lparr>cursor_x = 510, cursor_y = 320\<rparr>\<rparr>"

definition ex_output :: lab_output where
  "ex_output = \<lparr>output_usable = True,
     usable_area = \<lparr>box_x = 0, box_y = 0, box_width = 1000, box_height = 800\<rparr>,
     layout_x = 1920, layout_y = 0\<rparr>"

definition ex_interactive_env :: interactive_env where
  "ex_interactive_env = \<lparr>rc_snap_edge_range = 10, rc_snap_top_maximize = False,
     view_is_floating = (\<lambda>v. v \<noteq> None), output_nearest_to_cursor = (\<lambda>s. Some ex_output)\<rparr>"

definition ex_snapping :: server where
  "ex_snapping = ex_moving\<lparr>seat_cursor := \<lparr>cursor_x = 1925, cursor_y = 400\<rparr>\<rparr>"

section \<open>Containment\<close>








section \<open>Point classifier\<close>

lemma sdiv_two_nonneg: "0 \<le> (h::int) \<Longrightarrow> h sdiv 2 = h div 2"
  by (cases "h = 0") (simp_all add: signed_divide_int_def sgn_if)

lemma contains_point_iff:
  "wlr_box_contains_point b x y =
    (real_of_int (box_x b) \<le> x \<and> x < real_of_int (box_x b + box_width b)
     \<and> real_of_int (box_y b) \<le> y \<and> y < real_of_int (box_y b + box_height b))"
proof -
  have "0 < box_width b"
    if "real_of_int (box_x b) \<le> x" "x < real_of_int (box_x b + box_width b)"
    using that by linarith
  moreover have "0 < box_height b"
    if "real_of_int (box_y b) \<le> y" "y < real_of_int (box_y b + box_height b)"
    using that by linarith
  ultimately show ?thesis
    unfolding wlr_box_contains_point_def wlr_box_empty_def by auto
qed

lemma get_resizing_type_absent:
  "get_resizing_type ctx None cursor = LAB_SSD_NONE"
  "ssd_view s = None \<Longrightarrow> get_resizing_type ctx (Some s) cursor = LAB_SSD_NONE"
  "get_resizing_type ctx ssd None = LAB_SSD_NONE"
  by (simp_all add: get_resizing_type_def split: option.splits)

lemma get_resizing_type_disabled:
  "ssd_view s = Some v \<Longrightarrow> \<not> ssd_enabled v \<or> fullscreen v \<Longrightarrow>
     get_resizing_type ctx (Some s) cursor = LAB_SSD_NONE"
  by (auto simp add: get_resizing_type_def split: option.splits)

lemma get_resizing_type_inside:
  "ssd_view s = Some v \<Longrightarrow>
     wlr_box_contains_point (effective_box ctx v) (cursor_x c) (cursor_y c) \<Longrightarrow>
     get_resizing_type ctx (Some s) (Some c) = LAB_SSD_NONE"
  by (simp add: get_resizing_type_def Let_def)


lemma ex_effective_box:
  "effective_box ex_ctx ex_view = \<lparr>box_x = 0, box_y = - 30, box_width = 100, box_height = 130\<rparr>"
  by (simp add: effective_box_def ex_ctx_def ex_view_def)

lemma ex_corner_resizing:
  "get_resizing_type ex_ctx (Some ex_ssd) (Some ex_cursor) = LAB_SSD_PART_CORNER_TOP_LEFT"
  by (simp add: get_resizing_type_def ex_ssd_def ex_effective_box ex_cursor_def
      wlr_box_contains_point_def wlr_box_empty_def corner_height_def corner_width_def
      sdiv_two_nonneg)
     (simp add: ex_view_def ex_ctx_def)



text \<open>
  C6. \<^verbatim>\<open>get_resizing_type\<close> returns \<^verbatim>\<open>LAB_SSD_NONE\<close> for every cursor inside the
  effective box of the window (left and top bounds included, right and bottom bounds
  excluded); whenever decorations are disabled for the window or the window is
  fullscreen; and when no cursor, no decoration or no view of the decoration is given.
  In particular, setting the fullscreen flag of any window gives \<^verbatim>\<open>LAB_SSD_NONE\<close>
  for every cursor.
\<close>

theorem get_resizing_type_none:
  "(ssd_view s = Some v
      \<and> real_of_int (box_x (effective_box ctx v)) \<le> cursor_x c
      \<and> cursor_x c < real_of_int (box_x (effective_box ctx v) + box_width (effective_box ctx v))
      \<and> real_of_int (box_y (effective_box ctx v)) \<le> cursor_y c
      \<and> cursor_y c < real_of_int (box_y (effective_box ctx v) + box_height (effective_box ctx v))
     \<longrightarrow> get_resizing_type ctx (Some s) (Some c) = LAB_SSD_NONE)
   \<and> (ssd_view s = Some v \<and> (\<not> ssd_enabled v \<or> fullscreen v)
     \<longrightarrow> get_resizing_type ctx (Some s) cursor = LAB_SSD_NONE)
   \<and> get_resizing_type ctx ssd None = LAB_SSD_NONE
   \<and> get_resizing_type ctx None cursor = LAB_SSD_NONE
   \<and> (ssd_view s = None \<longrightarrow> get_resizing_type ctx (Some s) cursor = LAB_SSD_NONE)
   \<and> get_resizing_type ctx (Some (s\<lparr>ssd_view := Some (v\<lparr>fullscreen := True\<rparr>)\<rparr>)) cursor
        = LAB_SSD_NONE"
proof -
  have full:
    "get_resizing_type ctx (Some (s\<lparr>ssd_view := Some (v\<lparr>fullscreen := True\<rparr>)\<rparr>)) cursor
        = LAB_SSD_NONE"
    by (rule get_resizing_type_disabled [where v = "v\<lparr>fullscreen := True\<rparr>"]) simp_all
  show ?thesis
    using get_resizing_type_absent(1) [of ctx cursor] get_resizing_type_absent(2) [of s ctx cursor]
      get_resizing_type_absent(3) [of ctx ssd] get_resizing_type_disabled [of s v ctx cursor]
      get_resizing_type_inside [of s v ctx c] full
    by (simp add: contains_point_iff)
qed

theorem get_resizing_type_none_witness:
  "get_resizing_type ex_ctx (Some ex_ssd) (Some \<lparr>cursor_x = 50, cursor_y = - 10\<rparr>) = LAB_SSD_NONE
   \<and> get_resizing_type ex_ctx (Some (ex_ssd\<lparr>ssd_view := Some (ex_view\<lparr>fullscreen := True\<rparr>)\<rparr>))
        (Some ex_cursor) = LAB_SSD_NONE
   \<and> get_resizing_type ex_ctx (Some (ex_ssd\<lparr>ssd_view := Some (ex_view\<lparr>ssd_enabled := False\<rparr>)\<rparr>))
        (Some ex_cursor) = LAB_SSD_NONE
   \<and> get_resizing_type ex_ctx (Some (ex_ssd\<lparr>ssd_view := None\<rparr>)) (Some ex_cursor) = LAB_SSD_NONE
   \<and> get_resizing_type ex_ctx (Some ex_ssd) (Some ex_cursor) \<noteq> LAB_SSD_NONE"
  using get_resizing_type_none [of ex_ssd ex_view ex_ctx "\<lparr>cursor_x = 50, cursor_y = - 10\<rparr>"
      "Some ex_cursor" None]
    get_resizing_type_none [of "ex_ssd\<lparr>ssd_view := Some (ex_view\<lparr>ssd_enabled := False\<rparr>)\<rparr>"
      "ex_view\<lparr>ssd_enabled := False\<rparr>" ex_ctx _ "Some ex_cursor"]
    get_resizing_type_none [of "ex_ssd\<lparr>ssd_view := None\<rparr>" _ ex_ctx _ "Some ex_cursor"]
  by (simp add: ex_effective_box ex_corner_resizing) (simp add: ex_ssd_def)

section \<open>Node classifier\<close>

lemma scan_parts_none: "Some n \<notin> part_node ` set ps \<Longrightarrow> scan_parts n ps = LAB_SSD_NONE"
  by (induction ps) auto

lemma ex_lookup:
  "lookup_part_type ex_ctx ex_ssd 20 = LAB_SSD_PART_TITLE"
  "find_part_list ex_ctx ex_ssd 21
     = Some [\<lparr>part_type = LAB_SSD_PART_TITLE, part_node = Some 20\<rparr>]"
  "lookup_part_type ex_ctx ex_ssd 21 = LAB_SSD_NONE"
  "lookup_part_type ex_ctx ex_ssd 30 = LAB_SSD_PART_TOP"
  "find_part_list ex_ctx ex_ssd 99 = None"
  by (simp_all add: lookup_part_type_def find_part_list_def ex_ctx_def ex_ssd_def ex_scene_def)

lemma ex_not_client: "n \<noteq> 50 \<Longrightarrow> lab_wlr_surface_from_node ex_ctx n = None"
  by (simp add: ex_ctx_def)

lemma ex_client:
  "node_type (nodes ex_ctx 50) = WLR_SCENE_NODE_BUFFER \<and> lab_wlr_surface_from_node ex_ctx 50 \<noteq> None"
  by (simp add: ex_ctx_def ex_scene_def)

text \<open>
  C2, as the claim states it, fails: for the example window, the cursor two pixels
  outside the top left corner is in the top left resizing region, node 21 lies in the
  active titlebar sub-tree, no part of that sub-tree stores it, and the node-based
  classification of node 21 with this cursor is \<^verbatim>\<open>LAB_SSD_NONE\<close>, not the resizing type.
\<close>

theorem ssd_get_part_type_none_not_overridden:
  "get_resizing_type ex_ctx (Some ex_ssd) (Some ex_cursor) = LAB_SSD_PART_CORNER_TOP_LEFT
   \<and> find_part_list ex_ctx ex_ssd 21 = Some (sub_parts (grp_active (titlebar ex_ssd)))
   \<and> Some 21 \<notin> part_node ` set (sub_parts (grp_active (titlebar ex_ssd)))
   \<and> ssd_get_part_type ex_ctx (Some ex_ssd) (Some 21) (Some ex_cursor) = LAB_SSD_NONE"
  by (simp add: ex_corner_resizing ex_lookup ssd_get_part_type_def ex_not_client)
     (simp add: ex_ssd_def)

text \<open>
  C2, amended. For a node that is not client content and a decoration that is given:
  when the node-based lookup produced a part type other than \<^verbatim>\<open>LAB_SSD_NONE\<close> and the
  point classifier yields a resizing type other than \<^verbatim>\<open>LAB_SSD_NONE\<close> for the cursor,
  that resizing type is returned in place of the looked-up part type; when the point
  classifier yields \<^verbatim>\<open>LAB_SSD_NONE\<close>, the looked-up part type is returned; and when
  the lookup produced \<^verbatim>\<open>LAB_SSD_NONE\<close>, as it does when no region matches the node or
  no part of the matched region stores it, the result is \<^verbatim>\<open>LAB_SSD_NONE\<close> whatever
  the cursor.
\<close>

theorem ssd_get_part_type_cursor_override:
  "\<not> (node_type (nodes ctx n) = WLR_SCENE_NODE_BUFFER \<and> lab_wlr_surface_from_node ctx n \<noteq> None)
   \<longrightarrow>
    (lookup_part_type ctx s n \<noteq> LAB_SSD_NONE
         \<and> get_resizing_type ctx (Some s) cursor \<noteq> LAB_SSD_NONE \<longrightarrow>
       ssd_get_part_type ctx (Some s) (Some n) cursor = get_resizing_type ctx (Some s) cursor)
    \<and> (lookup_part_type ctx s n \<noteq> LAB_SSD_NONE
         \<and> get_resizing_type ctx (Some s) cursor = LAB_SSD_NONE \<longrightarrow>
       ssd_get_part_type ctx (Some s) (Some n) cursor = lookup_part_type ctx s n)
    \<and> (lookup_part_type ctx s n = LAB_SSD_NONE \<longrightarrow>
       ssd_get_part_type ctx (Some s) (Some n) cursor = LAB_SSD_NONE)
    \<and> (find_part_list ctx s n = None \<longrightarrow> lookup_part_type ctx s n = LAB_SSD_NONE)
    \<and> (find_part_list ctx s n = Some ps \<and> Some n \<notin> part_node ` set ps \<longrightarrow>
         lookup_part_type ctx s n = LAB_SSD_NONE)"
  by (auto simp add: ssd_get_part_type_def lookup_part_type_def scan_parts_none Let_def)

theorem ssd_get_part_type_cursor_override_witness:
  "ssd_get_part_type ex_ctx (Some ex_ssd) (Some 20) (Some ex_cursor)
     = LAB_SSD_PART_CORNER_TOP_LEFT
   \<and> lookup_part_type ex_ctx ex_ssd 20 = LAB_SSD_PART_TITLE
   \<and> ssd_get_part_type ex_ctx (Some ex_ssd) (Some 20) None = LAB_SSD_PART_TITLE
   \<and> ssd_get_part_type ex_ctx (Some ex_ssd) (Some 21) (Some ex_cursor) = LAB_SSD_NONE
   \<and> lookup_part_type ex_ctx ex_ssd 99 = LAB_SSD_NONE"
proof -
  have part: "Some 21 \<notin> part_node ` set [\<lparr>part_type = LAB_SSD_PART_TITLE, part_node = Some 20\<rparr>]"
    by simp
  show ?thesis
    using ssd_get_part_type_cursor_override [of ex_ctx 20 ex_ssd "Some ex_cursor"]
      ssd_get_part_type_cursor_override [of ex_ctx 20 ex_ssd None]
      ssd_get_part_type_cursor_override [of ex_ctx 21 ex_ssd "Some ex_cursor"
        "[\<lparr>part_type = LAB_SSD_PART_TITLE, part_node = Some 20\<rparr>]"]
      ssd_get_part_type_cursor_override [of ex_ctx 99 ex_ssd None] part
    by (simp add: ex_not_client ex_lookup ex_corner_resizing get_resizing_type_absent)
qed

text \<open>
  C10. \<^verbatim>\<open>ssd_get_part_type\<close> returns \<^verbatim>\<open>LAB_SSD_NONE\<close> for a \<^verbatim>\<open>NULL\<close> node, whatever the
  decoration and the cursor, and for a node that is not client content when the
  decoration is \<^verbatim>\<open>NULL\<close>. It returns a value for every combination of absent handles.
  A node that is client content gives \<^verbatim>\<open>LAB_SSD_CLIENT\<close> with or without a decoration;
  a result that is a decoration part (neither \<^verbatim>\<open>LAB_SSD_NONE\<close> nor
  \<^verbatim>\<open>LAB_SSD_CLIENT\<close>) needs both a node and a decoration.
\<close>

theorem ssd_get_part_type_absent_handles:
  "ssd_get_part_type ctx ssd None cursor = LAB_SSD_NONE
   \<and> (\<not> (node_type (nodes ctx n) = WLR_SCENE_NODE_BUFFER
           \<and> lab_wlr_surface_from_node ctx n \<noteq> None)
        \<longrightarrow> ssd_get_part_type ctx None (Some n) cursor = LAB_SSD_NONE)
   \<and> (node_type (nodes ctx n) = WLR_SCENE_NODE_BUFFER \<and> lab_wlr_surface_from_node ctx n \<noteq> None
        \<longrightarrow> ssd_get_part_type ctx ssd (Some n) cursor = LAB_SSD_CLIENT)
   \<and> (ssd_get_part_type ctx ssd node cursor \<notin> {LAB_SSD_NONE, LAB_SSD_CLIENT}
        \<longrightarrow> node \<noteq> None \<and> ssd \<noteq> None)"
  by (auto simp add: ssd_get_part_type_def split: option.splits if_splits)

theorem ssd_get_part_type_absent_handles_witness:
  "ssd_get_part_type ex_ctx None (Some 20) (Some ex_cursor) = LAB_SSD_NONE
   \<and> ssd_get_part_type ex_ctx (Some ex_ssd) None (Some ex_cursor) = LAB_SSD_NONE
   \<and> ssd_get_part_type ex_ctx None (Some 50) (Some ex_cursor) = LAB_SSD_CLIENT
   \<and> ssd_get_part_type ex_ctx (Some ex_ssd) (Some 30) None = LAB_SSD_PART_TOP"
proof -
  have "ssd_get_part_type ex_ctx (Some ex_ssd) (Some 30) None = LAB_SSD_PART_TOP"
    by (simp add: ssd_get_part_type_def ex_not_client get_resizing_type_absent ex_lookup)
  then show ?thesis
    using ssd_get_part_type_absent_handles [of ex_ctx "Some ex_ssd" "Some ex_cursor" 20 "Some 30"]
      ssd_get_part_type_absent_handles [of ex_ctx None "Some ex_cursor" 50] ex_client
    by (simp add: ex_not_client)
qed

section \<open>Active and inactive sub-trees\<close>

lemma enable_tree_present: "enable_tree sc (Some a) e = Inr (wlr_scene_node_set_enabled sc a e)"
  by (simp add: enable_tree_def)

lemma enable_tree_if_present_result:
  "enable_tree_if_present sc t e
     = Inr (case t of None \<Rightarrow> sc | Some a \<Rightarrow> wlr_scene_node_set_enabled sc a e)"
  by (simp add: enable_tree_if_present_def enable_tree_def split: option.splits)

lemma and_then_Inr: "and_then (Inr x) f = f x"
  by (simp add: and_then_def)

lemma set_enabled_apply:
  "wlr_scene_node_set_enabled sc a e b = (if b = a then (sc a)\<lparr>node_enabled := e\<rparr> else sc b)"
  by (simp add: wlr_scene_node_set_enabled_def)

lemma ssd_set_active_separate:
  assumes "ssd_trees_separate s"
  shows "\<exists>sc'. ssd_set_active sc (Some s) act = Inr sc'
    \<and> tree_enabled sc' (sub_tree (grp_active (border s))) = Some act
    \<and> tree_enabled sc' (sub_tree (grp_active (titlebar s))) = Some act
    \<and> tree_enabled sc' (sub_tree (grp_inactive (border s))) = Some (\<not> act)
    \<and> tree_enabled sc' (sub_tree (grp_inactive (titlebar s))) = Some (\<not> act)
    \<and> tree_enabled sc' (sub_tree (grp_active (shadow s))) \<in> {None, Some act}
    \<and> tree_enabled sc' (sub_tree (grp_inactive (shadow s))) \<in> {None, Some (\<not> act)}
    \<and> (\<forall>a. node_type (sc' a) = node_type (sc a) \<and> node_parent (sc' a) = node_parent (sc a))
    \<and> (\<forall>a. Some a \<notin> {sub_tree (grp_active (border s)), sub_tree (grp_active (titlebar s)),
                      sub_tree (grp_active (shadow s)), sub_tree (grp_inactive (border s)),
                      sub_tree (grp_inactive (titlebar s)), sub_tree (grp_inactive (shadow s))}
            \<longrightarrow> sc' a = sc a)"
proof -
  define sa where "sa = sub_tree (grp_active (shadow s))"
  define si where "si = sub_tree (grp_inactive (shadow s))"
  from assms obtain ba ta bi ti where
    t: "sub_tree (grp_active (border s)) = Some ba" "sub_tree (grp_active (titlebar s)) = Some ta"
       "sub_tree (grp_inactive (border s)) = Some bi"
       "sub_tree (grp_inactive (titlebar s)) = Some ti"
    unfolding ssd_trees_separate_def by auto
  from assms t have d: "ba \<noteq> bi" "ba \<noteq> ti" "ta \<noteq> bi" "ta \<noteq> ti"
    "si \<noteq> Some ba" "si \<noteq> Some ta" "sa \<noteq> Some bi" "sa \<noteq> Some ti" "sa = None \<or> sa \<noteq> si"
    unfolding ssd_trees_separate_def active_trees_def inactive_trees_def sa_def si_def
    by auto
  define sc1 where "sc1 = wlr_scene_node_set_enabled (wlr_scene_node_set_enabled sc ba act) ta act"
  define sc2 where
    "sc2 = (case sa of None \<Rightarrow> sc1 | Some a \<Rightarrow> wlr_scene_node_set_enabled sc1 a act)"
  define sc3 where
    "sc3 = wlr_scene_node_set_enabled (wlr_scene_node_set_enabled sc2 bi (\<not> act)) ti (\<not> act)"
  define sc4 where
    "sc4 = (case si of None \<Rightarrow> sc3 | Some a \<Rightarrow> wlr_scene_node_set_enabled sc3 a (\<not> act))"
  have res: "ssd_set_active sc (Some s) act = Inr sc4"
    unfolding sc4_def sc3_def sc2_def sc1_def sa_def si_def
    by (simp add: ssd_set_active_def t enable_tree_present enable_tree_if_present_result
        and_then_Inr)
  have e1: "node_enabled (sc1 ba) = act" "node_enabled (sc1 ta) = act"
    by (simp_all add: sc1_def set_enabled_apply)
  have e2: "node_enabled (sc2 ba) = act" "node_enabled (sc2 ta) = act"
    "\<And>a. sa = Some a \<Longrightarrow> node_enabled (sc2 a) = act"
    using e1 by (simp_all add: sc2_def set_enabled_apply split: option.splits)
  have e3: "node_enabled (sc3 ba) = act" "node_enabled (sc3 ta) = act"
    "\<And>a. sa = Some a \<Longrightarrow> node_enabled (sc3 a) = act"
    "node_enabled (sc3 bi) = (\<not> act)" "node_enabled (sc3 ti) = (\<not> act)"
    using e2 d by (auto simp add: sc3_def set_enabled_apply)
  have e4: "node_enabled (sc4 ba) = act" "node_enabled (sc4 ta) = act"
    "\<And>a. sa = Some a \<Longrightarrow> node_enabled (sc4 a) = act"
    "node_enabled (sc4 bi) = (\<not> act)" "node_enabled (sc4 ti) = (\<not> act)"
    "\<And>a. si = Some a \<Longrightarrow> node_enabled (sc4 a) = (\<not> act)"
    using e3 d by (auto simp add: sc4_def set_enabled_apply split: option.splits)
  have other: "node_type (sc4 a) = node_type (sc a) \<and> node_parent (sc4 a) = node_parent (sc a)"
    for a
    by (simp add: sc4_def sc3_def sc2_def sc1_def set_enabled_apply split: option.splits)
  have frame: "sc4 a = sc a"
    if "Some a \<notin> {Some ba, Some ta, sa, Some bi, Some ti, si}" for a
    using that
    by (auto simp add: sc4_def sc3_def sc2_def sc1_def set_enabled_apply split: option.splits)
  have shadows: "tree_enabled sc4 sa \<in> {None, Some act}" "tree_enabled sc4 si \<in> {None, Some (\<not> act)}"
    using e4(3,6) by (auto simp add: tree_enabled_def split: option.splits)
  show ?thesis
    unfolding t sa_def [symmetric] si_def [symmetric]
    using res e4(1,2,4,5) shadows other frame
    by (intro exI [of _ sc4]) (simp add: tree_enabled_def)
qed

text \<open>
  C8. Without a decoration \<^verbatim>\<open>ssd_set_active\<close> changes nothing. On a decoration whose
  sub-trees are separate scene trees it returns, for either value of \<open>active\<close>, a scene
  in which the active titlebar and the active border are enabled iff \<open>active\<close>, the
  inactive titlebar and the inactive border iff not \<open>active\<close>, so that exactly one
  titlebar sub-tree and exactly one border sub-tree is enabled; a shadow sub-tree that
  is present carries the flag of its pair, and no other node and no other field
  changes.
\<close>

theorem ssd_set_active_lockstep:
  "ssd_set_active sc None act = Inr sc
   \<and> (ssd_trees_separate s \<longrightarrow>
       (\<exists>sc'. ssd_set_active sc (Some s) act = Inr sc'
          \<and> tree_enabled sc' (sub_tree (grp_active (titlebar s))) = Some act
          \<and> tree_enabled sc' (sub_tree (grp_inactive (titlebar s))) = Some (\<not> act)
          \<and> tree_enabled sc' (sub_tree (grp_active (border s))) = Some act
          \<and> tree_enabled sc' (sub_tree (grp_inactive (border s))) = Some (\<not> act)
          \<and> (tree_enabled sc' (sub_tree (grp_active (titlebar s))) = Some True)
              \<noteq> (tree_enabled sc' (sub_tree (grp_inactive (titlebar s))) = Some True)
          \<and> (tree_enabled sc' (sub_tree (grp_active (border s))) = Some True)
              \<noteq> (tree_enabled sc' (sub_tree (grp_inactive (border s))) = Some True)
          \<and> tree_enabled sc' (sub_tree (grp_active (shadow s))) \<in> {None, Some act}
          \<and> tree_enabled sc' (sub_tree (grp_inactive (shadow s))) \<in> {None, Some (\<not> act)}
          \<and> (\<forall>a. node_type (sc' a) = node_type (sc a)
                   \<and> node_parent (sc' a) = node_parent (sc a))
          \<and> (\<forall>a. Some a \<notin> {sub_tree (grp_active (border s)),
                      sub_tree (grp_active (titlebar s)), sub_tree (grp_active (shadow s)),
                      sub_tree (grp_inactive (border s)), sub_tree (grp_inactive (titlebar s)),
                      sub_tree (grp_inactive (shadow s))}
                  \<longrightarrow> sc' a = sc a)))"
proof (intro conjI impI)
  show "ssd_set_active sc None act = Inr sc"
    by (simp add: ssd_set_active_def)
next
  assume "ssd_trees_separate s"
  from ssd_set_active_separate [OF this, of sc act] obtain sc' where
    r: "ssd_set_active sc (Some s) act = Inr sc'"
      "tree_enabled sc' (sub_tree (grp_active (border s))) = Some act"
      "tree_enabled sc' (sub_tree (grp_active (titlebar s))) = Some act"
      "tree_enabled sc' (sub_tree (grp_inactive (border s))) = Some (\<not> act)"
      "tree_enabled sc' (sub_tree (grp_inactive (titlebar s))) = Some (\<not> act)"
      "tree_enabled sc' (sub_tree (grp_active (shadow s))) \<in> {None, Some act}"
      "tree_enabled sc' (sub_tree (grp_inactive (shadow s))) \<in> {None, Some (\<not> act)}"
      "\<forall>a. node_type (sc' a) = node_type (sc a) \<and> node_parent (sc' a) = node_parent (sc a)"
      "\<forall>a. Some a \<notin> {sub_tree (grp_active (border s)), sub_tree (grp_active (titlebar s)),
                      sub_tree (grp_active (shadow s)), sub_tree (grp_inactive (border s)),
                      sub_tree (grp_inactive (titlebar s)), sub_tree (grp_inactive (shadow s))}
            \<longrightarrow> sc' a = sc a"
    by blast
  have one: "(tree_enabled sc' (sub_tree (grp_active (titlebar s))) = Some True)
              \<noteq> (tree_enabled sc' (sub_tree (grp_inactive (titlebar s))) = Some True)"
    "(tree_enabled sc' (sub_tree (grp_active (border s))) = Some True)
              \<noteq> (tree_enabled sc' (sub_tree (grp_inactive (border s))) = Some True)"
    using r(2-5) by auto
  show "\<exists>sc'. ssd_set_active sc (Some s) act = Inr sc'
          \<and> tree_enabled sc' (sub_tree (grp_active (titlebar s))) = Some act
          \<and> tree_enabled sc' (sub_tree (grp_inactive (titlebar s))) = Some (\<not> act)
          \<and> tree_enabled sc' (sub_tree (grp_active (border s))) = Some act
          \<and> tree_enabled sc' (sub_tree (grp_inactive (border s))) = Some (\<not> act)
          \<and> (tree_enabled sc' (sub_tree (grp_active (titlebar s))) = Some True)
              \<noteq> (tree_enabled sc' (sub_tree (grp_inactive (titlebar s))) = Some True)
          \<and> (tree_enabled sc' (sub_tree (grp_active (border s))) = Some True)
              \<noteq> (tree_enabled sc' (sub_tree (grp_inactive (border s))) = Some True)
          \<and> tree_enabled sc' (sub_tree (grp_active (shadow s))) \<in> {None, Some act}
          \<and> tree_enabled sc' (sub_tree (grp_inactive (shadow s))) \<in> {None, Some (\<not> act)}
          \<and> (\<forall>a. node_type (sc' a) = node_type (sc a)
                   \<and> node_parent (sc' a) = node_parent (sc a))
          \<and> (\<forall>a. Some a \<notin> {sub_tree (grp_active (border s)),
                      sub_tree (grp_active (titlebar s)), sub_tree (grp_active (shadow s)),
                      sub_tree (grp_inactive (border s)), sub_tree (grp_inactive (titlebar s)),
                      sub_tree (grp_inactive (shadow s))}
                  \<longrightarrow> sc' a = sc a)"
    using r one by (intro exI [of _ sc']) (simp only: simp_thms)
qed

theorem ssd_set_active_lockstep_witness:
  "ssd_trees_separate ex_ssd
   \<and> (\<exists>sc'. ssd_set_active ex_scene (Some ex_ssd) True = Inr sc'
         \<and> tree_enabled sc' (Some 4) = Some True \<and> tree_enabled sc' (Some 5) = Some False
         \<and> tree_enabled sc' (Some 7) = Some True \<and> tree_enabled sc' (Some 8) = Some False
         \<and> tree_enabled sc' (Some 10) = Some True \<and> tree_enabled sc' (Some 11) = Some False
         \<and> sc' 20 = ex_scene 20)"
proof -
  have sep: "ssd_trees_separate ex_ssd"
    by (simp add: ssd_trees_separate_def active_trees_def inactive_trees_def ex_ssd_def)
  have trees:
    "sub_tree (grp_active (titlebar ex_ssd)) = Some 4"
    "sub_tree (grp_inactive (titlebar ex_ssd)) = Some 5"
    "sub_tree (grp_active (border ex_ssd)) = Some 7"
    "sub_tree (grp_inactive (border ex_ssd)) = Some 8"
    "sub_tree (grp_active (shadow ex_ssd)) = Some 10"
    "sub_tree (grp_inactive (shadow ex_ssd)) = Some 11"
    by (simp_all add: ex_ssd_def)
  from ssd_set_active_lockstep [of ex_scene True ex_ssd] sep
  obtain sc' where r: "ssd_set_active ex_scene (Some ex_ssd) True = Inr sc'"
    "tree_enabled sc' (Some 4) = Some True" "tree_enabled sc' (Some 5) = Some False"
    "tree_enabled sc' (Some 7) = Some True" "tree_enabled sc' (Some 8) = Some False"
    "tree_enabled sc' (Some 10) \<in> {None, Some True}"
    "tree_enabled sc' (Some 11) \<in> {None, Some False}"
    "\<forall>a. Some a \<notin> {Some 7, Some 4, Some 10, Some 8, Some 5, Some (11::nat)}
            \<longrightarrow> sc' a = ex_scene a"
    unfolding trees by auto
  from r(6,7) have "tree_enabled sc' (Some 10) = Some True" "tree_enabled sc' (Some 11) = Some False"
    by (simp_all add: tree_enabled_def)
  moreover from r(8) have "sc' 20 = ex_scene 20"
    by simp
  ultimately show ?thesis
    using sep r(1-5) by blast
qed

section \<open>Snap edges\<close>

lemma edge_from_cursor_usable:
  assumes "view_is_floating env (grabbed_view s)" "rc_snap_edge_range env \<noteq> 0"
    and "output_nearest_to_cursor env s = Some out" "output_usable out"
  shows "edge_from_cursor env s dest =
    (let x = fst (local_cursor out s); y = snd (local_cursor out s); area = usable_area out;
         snap_range = rc_snap_edge_range env
     in if x \<le> real_of_int (box_x area + snap_range) then VIEW_EDGE_LEFT
        else if x \<ge> real_of_int (box_x area + box_width area - snap_range) then VIEW_EDGE_RIGHT
        else if y \<le> real_of_int (box_y area + snap_range)
          then (if rc_snap_top_maximize env then VIEW_EDGE_CENTER else VIEW_EDGE_UP)
        else if y \<ge> real_of_int (box_y area + box_height area - snap_range) then VIEW_EDGE_DOWN
        else VIEW_EDGE_INVALID, Some out)"
  using assms
  by (simp add: edge_from_cursor_def output_is_usable_def local_cursor_def Let_def
        split: prod.splits)

lemma edge_from_cursor_not_started:
  "\<not> view_is_floating env (grabbed_view s) \<or> rc_snap_edge_range env = 0 \<Longrightarrow>
     edge_from_cursor env s dest = (VIEW_EDGE_INVALID, dest)"
  by (auto simp add: edge_from_cursor_def)

text \<open>
  C4. \<^verbatim>\<open>edge_from_cursor\<close> returns \<^verbatim>\<open>VIEW_EDGE_INVALID\<close>, and leaves the destination
  output alone, when the grabbed view is not floating or the snap range is zero. For a
  floating grabbed view, a nonzero snap range and a usable nearest output it stores
  that output and tests the cursor, in the output's coordinates \<open>(x, y)\<close>, against the
  left, right, top and bottom margins in this order, the first match deciding: left
  gives LEFT; otherwise right gives RIGHT; otherwise top gives CENTER when
  snap-top-maximize is on and UP when it is off; otherwise bottom gives DOWN; otherwise
  the result is INVALID. On the usable area (0, 0, 1000, 800) with snap range 10 the
  cursor (5, 400) gives LEFT, (995, 400) RIGHT, (500, 5) UP or CENTER, (500, 795) DOWN
  and (500, 400) INVALID.
\<close>

theorem edge_from_cursor_order:
  "(\<not> view_is_floating env (grabbed_view s) \<or> rc_snap_edge_range env = 0 \<longrightarrow>
      edge_from_cursor env s dest = (VIEW_EDGE_INVALID, dest))
   \<and> (view_is_floating env (grabbed_view s) \<and> rc_snap_edge_range env \<noteq> 0
       \<and> output_nearest_to_cursor env s = Some out \<and> output_usable out
       \<and> local_cursor out s = (x, y)
      \<longrightarrow>
       snd (edge_from_cursor env s dest) = Some out
       \<and> (x \<le> real_of_int (box_x (usable_area out) + rc_snap_edge_range env) \<longrightarrow>
            fst (edge_from_cursor env s dest) = VIEW_EDGE_LEFT)
       \<and> (\<not> x \<le> real_of_int (box_x (usable_area out) + rc_snap_edge_range env)
           \<and> x \<ge> real_of_int (box_x (usable_area out) + box_width (usable_area out)
                                 - rc_snap_edge_range env) \<longrightarrow>
            fst (edge_from_cursor env s dest) = VIEW_EDGE_RIGHT)
       \<and> (\<not> x \<le> real_of_int (box_x (usable_area out) + rc_snap_edge_range env)
           \<and> \<not> x \<ge> real_of_int (box_x (usable_area out) + box_width (usable_area out)
                                 - rc_snap_edge_range env)
           \<and> y \<le> real_of_int (box_y (usable_area out) + rc_snap_edge_range env) \<longrightarrow>
            fst (edge_from_cursor env s dest)
              = (if rc_snap_top_maximize env then VIEW_EDGE_CENTER else VIEW_EDGE_UP))
       \<and> (\<not> x \<le> real_of_int (box_x (usable_area out) + rc_snap_edge_range env)
           \<and> \<not> x \<ge> real_of_int (box_x (usable_area out) + box_width (usable_area out)
                                 - rc_snap_edge_range env)
           \<and> \<not> y \<le> real_of_int (box_y (usable_area out) + rc_snap_edge_range env)
           \<and> y \<ge> real_of_int (box_y (usable_area out) + box_height (usable_area out)
                                 - rc_snap_edge_range env) \<longrightarrow>
            fst (edge_from_cursor env s dest) = VIEW_EDGE_DOWN)
       \<and> (\<not> x \<le> real_of_int (box_x (usable_area out) + rc_snap_edge_range env)
           \<and> \<not> x \<ge> real_of_int (box_x (usable_area out) + box_width (usable_area out)
                                 - rc_snap_edge_range env)
           \<and> \<not> y \<le> real_of_int (box_y (usable_area out) + rc_snap_edge_range env)
           \<and> \<not> y \<ge> real_of_int (box_y (usable_area out) + box_height (usable_area out)
                                 - rc_snap_edge_range env) \<longrightarrow>
            fst (edge_from_cursor env s dest) = VIEW_EDGE_INVALID))
   \<and> (view_is_floating env (grabbed_view s) \<and> rc_snap_edge_range env = 10
       \<and> output_nearest_to_cursor env s = Some out \<and> output_usable out
       \<and> usable_area out = \<lparr>box_x = 0, box_y = 0, box_width = 1000, box_height = 800\<rparr>
      \<longrightarrow>
       (local_cursor out s = (5, 400) \<longrightarrow> fst (edge_from_cursor env s dest) = VIEW_EDGE_LEFT)
       \<and> (local_cursor out s = (995, 400) \<longrightarrow>
            fst (edge_from_cursor env s dest) = VIEW_EDGE_RIGHT)
       \<and> (local_cursor out s = (500, 5) \<and> \<not> rc_snap_top_maximize env \<longrightarrow>
            fst (edge_from_cursor env s dest) = VIEW_EDGE_UP)
       \<and> (local_cursor out s = (500, 5) \<and> rc_snap_top_maximize env \<longrightarrow>
            fst (edge_from_cursor env s dest) = VIEW_EDGE_CENTER)
       \<and> (local_cursor out s = (500, 795) \<longrightarrow>
            fst (edge_from_cursor env s dest) = VIEW_EDGE_DOWN)
       \<and> (local_cursor out s = (500, 400) \<longrightarrow>
            fst (edge_from_cursor env s dest) = VIEW_EDGE_INVALID))"
proof (intro conjI impI; (elim conjE)?)
  show "edge_from_cursor env s dest = (VIEW_EDGE_INVALID, dest)"
    if "\<not> view_is_floating env (grabbed_view s) \<or> rc_snap_edge_range env = 0"
    using that by (rule edge_from_cursor_not_started)
qed (simp_all add: edge_from_cursor_usable Let_def)

theorem edge_from_cursor_order_witness:
  "edge_from_cursor ex_interactive_env ex_snapping None = (VIEW_EDGE_LEFT, Some ex_output)
   \<and> fst (edge_from_cursor ex_interactive_env
          (ex_snapping\<lparr>seat_cursor := \<lparr>cursor_x = 2915, cursor_y = 400\<rparr>\<rparr>) None) = VIEW_EDGE_RIGHT
   \<and> fst (edge_from_cursor ex_interactive_env
          (ex_snapping\<lparr>seat_cursor := \<lparr>cursor_x = 2420, cursor_y = 5\<rparr>\<rparr>) None) = VIEW_EDGE_UP
   \<and> fst (edge_from_cursor (ex_interactive_env\<lparr>rc_snap_top_maximize := True\<rparr>)
          (ex_snapping\<lparr>seat_cursor := \<lparr>cursor_x = 2420, cursor_y = 5\<rparr>\<rparr>) None) = VIEW_EDGE_CENTER
   \<and> fst (edge_from_cursor ex_interactive_env
          (ex_snapping\<lparr>seat_cursor := \<lparr>cursor_x = 2420, cursor_y = 795\<rparr>\<rparr>) None) = VIEW_EDGE_DOWN
   \<and> fst (edge_from_cursor ex_interactive_env
          (ex_snapping\<lparr>seat_cursor := \<lparr>cursor_x = 2420, cursor_y = 400\<rparr>\<rparr>) None)
        = VIEW_EDGE_INVALID
   \<and> fst (edge_from_cursor ex_interactive_env
          (ex_snapping\<lparr>seat_cursor := \<lparr>cursor_x = 1925, cursor_y = 5\<rparr>\<rparr>) None) = VIEW_EDGE_LEFT
   \<and> edge_from_cursor (ex_interactive_env\<lparr>rc_snap_edge_range := 0\<rparr>) ex_snapping None
        = (VIEW_EDGE_INVALID, None)
   \<and> edge_from_cursor ex_interactive_env (ex_snapping\<lparr>grabbed_view := None\<rparr>) None
        = (VIEW_EDGE_INVALID, None)"
proof -
  have pos: "local_cursor ex_output (ex_snapping\<lparr>seat_cursor := \<lparr>cursor_x = x, cursor_y = y\<rparr>\<rparr>)
      = (x - 1920, y)" for x y
    by (simp add: local_cursor_def wlr_output_layout_output_coords_def ex_output_def)
  have pos0: "local_cursor ex_output ex_snapping = (5, 400)"
    by (simp add: local_cursor_def wlr_output_layout_output_coords_def ex_output_def
        ex_snapping_def)
  have env0: "view_is_floating ex_interactive_env (grabbed_view ex_snapping)"
    "output_nearest_to_cursor ex_interactive_env ex_snapping = Some ex_output"
    by (simp_all add: ex_interactive_env_def ex_snapping_def ex_moving_def)
  have env: "view_is_floating ex_interactive_env (grabbed_view (ex_snapping\<lparr>seat_cursor := c\<rparr>))"
    "rc_snap_edge_range ex_interactive_env = 10"
    "output_nearest_to_cursor ex_interactive_env (ex_snapping\<lparr>seat_cursor := c\<rparr>)
       = Some ex_output"
    "view_is_floating (ex_interactive_env\<lparr>rc_snap_top_maximize := True\<rparr>)
       (grabbed_view (ex_snapping\<lparr>seat_cursor := c\<rparr>))"
    "rc_snap_edge_range (ex_interactive_env\<lparr>rc_snap_top_maximize := True\<rparr>) = 10"
    "output_nearest_to_cursor (ex_interactive_env\<lparr>rc_snap_top_maximize := True\<rparr>)
       (ex_snapping\<lparr>seat_cursor := c\<rparr>) = Some ex_output"
    for c
    by (simp_all add: ex_interactive_env_def ex_snapping_def ex_moving_def)
  have out: "output_usable ex_output"
    "usable_area ex_output = \<lparr>box_x = 0, box_y = 0, box_width = 1000, box_height = 800\<rparr>"
    by (simp_all add: ex_output_def)
  have top: "\<not> rc_snap_top_maximize ex_interactive_env"
    "rc_snap_top_maximize (ex_interactive_env\<lparr>rc_snap_top_maximize := True\<rparr>)"
    by (simp_all add: ex_interactive_env_def)
  note inst = edge_from_cursor_order [where dest = None and out = ex_output]
  have left: "fst (edge_from_cursor ex_interactive_env ex_snapping None) = VIEW_EDGE_LEFT"
    "snd (edge_from_cursor ex_interactive_env ex_snapping None) = Some ex_output"
    using inst [of ex_interactive_env ex_snapping 5 400] pos0 env0 env(2) out
    by simp_all
  have right: "fst (edge_from_cursor ex_interactive_env
          (ex_snapping\<lparr>seat_cursor := \<lparr>cursor_x = 2915, cursor_y = 400\<rparr>\<rparr>) None) = VIEW_EDGE_RIGHT"
    using inst [of ex_interactive_env
        "ex_snapping\<lparr>seat_cursor := \<lparr>cursor_x = 2915, cursor_y = 400\<rparr>\<rparr>" 995 400]
      pos [of 2915 400] env out
    by simp
  have up: "fst (edge_from_cursor ex_interactive_env
          (ex_snapping\<lparr>seat_cursor := \<lparr>cursor_x = 2420, cursor_y = 5\<rparr>\<rparr>) None) = VIEW_EDGE_UP"
    using inst [of ex_interactive_env
        "ex_snapping\<lparr>seat_cursor := \<lparr>cursor_x = 2420, cursor_y = 5\<rparr>\<rparr>" 500 5]
      pos [of 2420 5] env out top
    by simp
  have center: "fst (edge_from_cursor (ex_interactive_env\<lparr>rc_snap_top_maximize := True\<rparr>)
          (ex_snapping\<lparr>seat_cursor := \<lparr>cursor_x = 2420, cursor_y = 5\<rparr>\<rparr>) None) = VIEW_EDGE_CENTER"
    using inst [of "ex_interactive_env\<lparr>rc_snap_top_maximize := True\<rparr>"
        "ex_snapping\<lparr>seat_cursor := \<lparr>cursor_x = 2420, cursor_y = 5\<rparr>\<rparr>" 500 5]
      pos [of 2420 5] env out top
    by simp
  have down: "fst (edge_from_cursor ex_interactive_env
          (ex_snapping\<lparr>seat_cursor := \<lparr>cursor_x = 2420, cursor_y = 795\<rparr>\<rparr>) None) = VIEW_EDGE_DOWN"
    using inst [of ex_interactive_env
        "ex_snapping\<lparr>seat_cursor := \<lparr>cursor_x = 2420, cursor_y = 795\<rparr>\<rparr>" 500 795]
      pos [of 2420 795] env out
    by simp
  have middle: "fst (edge_from_cursor ex_interactive_env
          (ex_snapping\<lparr>seat_cursor := \<lparr>cursor_x = 2420, cursor_y = 400\<rparr>\<rparr>) None)
        = VIEW_EDGE_INVALID"
    using inst [of ex_interactive_env
        "ex_snapping\<lparr>seat_cursor := \<lparr>cursor_x = 2420, cursor_y = 400\<rparr>\<rparr>" 500 400]
      pos [of 2420 400] env out
    by simp
  have corner: "fst (edge_from_cursor ex_interactive_env
          (ex_snapping\<lparr>seat_cursor := \<lparr>cursor_x = 1925, cursor_y = 5\<rparr>\<rparr>) None) = VIEW_EDGE_LEFT"
    using inst [of ex_interactive_env
        "ex_snapping\<lparr>seat_cursor := \<lparr>cursor_x = 1925, cursor_y = 5\<rparr>\<rparr>" 5 5]
      pos [of 1925 5] env out
    by simp
  have off: "edge_from_cursor (ex_interactive_env\<lparr>rc_snap_edge_range := 0\<rparr>) ex_snapping None
        = (VIEW_EDGE_INVALID, None)"
    using edge_from_cursor_order [of "ex_interactive_env\<lparr>rc_snap_edge_range := 0\<rparr>"
        ex_snapping None]
    by simp
  have tiled: "edge_from_cursor ex_interactive_env (ex_snapping\<lparr>grabbed_view := None\<rparr>) None
        = (VIEW_EDGE_INVALID, None)"
    using edge_from_cursor_order [of ex_interactive_env "ex_snapping\<lparr>grabbed_view := None\<rparr>" None]
    by (simp add: ex_interactive_env_def)
  show ?thesis
    using left right up center down middle corner off tiled
    by (simp add: prod_eq_iff)
qed

section \<open>Anchoring the grab box to the cursor\<close>

lemma c_int_of_double_of_int: "c_int_of_double (real_of_int i) = i"
  by (simp add: c_int_of_double_def)

lemma max_move_scale_value:
  "size_old \<noteq> 0 \<Longrightarrow>
     max_move_scale pos_cursor (real_of_int pos_old) size_old size_new =
       Inr (max pos_old
             (c_int_of_double
               (double_sub pos_cursor
                 (double_mul size_new
                   (double_div (double_sub pos_cursor (real_of_int pos_old)) size_old)))))"
  by (simp add: max_move_scale_def Let_def c_int_of_double_of_int max_def)

lemma anchor_to_cursor_result:
  assumes "input_mode s = LAB_INPUT_STATE_MOVE" "\<not> wlr_box_empty (Some g)"
    and "box_width (grab_box s) \<noteq> 0" "box_height (grab_box s) \<noteq> 0"
  shows "\<exists>s' g'. interactive_anchor_to_cursor s (Some g) = Inr (s', Some g')
      \<and> box_x (grab_box s') = max (box_x (grab_box s))
          (c_int_of_double
            (double_sub (grab_x s)
              (double_mul (real_of_int (box_width g))
                (double_div (double_sub (grab_x s) (real_of_int (box_x (grab_box s))))
                  (real_of_int (box_width (grab_box s)))))))
      \<and> box_y (grab_box s') = max (box_y (grab_box s))
          (c_int_of_double
            (double_sub (grab_y s)
              (double_mul (real_of_int (box_height g))
                (double_div (double_sub (grab_y s) (real_of_int (box_y (grab_box s))))
                  (real_of_int (box_height (grab_box s)))))))
      \<and> box_width (grab_box s') = box_width g \<and> box_height (grab_box s') = box_height g
      \<and> box_x (grab_box s) \<le> box_x (grab_box s') \<and> box_y (grab_box s) \<le> box_y (grab_box s')"
  using assms
  by (simp add: interactive_anchor_to_cursor_def max_move_scale_value and_then_def Let_def)

lemma anchor_to_cursor_empty:
  "input_mode s = LAB_INPUT_STATE_MOVE \<Longrightarrow> wlr_box_empty geo \<Longrightarrow>
     interactive_anchor_to_cursor s geo = Inr (s, geo)"
  by (simp add: interactive_anchor_to_cursor_def)

lemma double_examples:
  "c_int_of_double (double_sub 150 (double_mul 100 (double_div (double_sub 150 0) 200))) = 75"
  "c_int_of_double (double_sub 50 (double_mul 50 (double_div (double_sub 50 0) 100))) = 25"
  "c_int_of_double (double_sub 500 (double_mul 960 (double_div (double_sub 500 0) 1920))) = 249"
  "c_int_of_double (double_sub 300 (double_mul 540 (double_div (double_sub 300 0) 1080))) = 150"
  by code_simp+

lemma anchor_to_cursor_example:
  assumes "input_mode s = LAB_INPUT_STATE_MOVE"
    "grab_box s = \<lparr>box_x = 0, box_y = 0, box_width = 200, box_height = 100\<rparr>"
    "grab_x s = 150" "grab_y s = 50" "box_width g = 100" "box_height g = 50"
  shows "\<exists>s' g'. interactive_anchor_to_cursor s (Some g) = Inr (s', Some g')
      \<and> box_x (grab_box s') = 75 \<and> box_y (grab_box s') = 25"
proof -
  have ne: "\<not> wlr_box_empty (Some g)"
    using assms by (simp add: wlr_box_empty_def)
  from anchor_to_cursor_result [OF assms(1) ne] assms double_examples(1,2) show ?thesis
    by auto
qed

text \<open>
  C3, as the claim states it, fails: for the window grabbed at (500, 300) in the box
  (0, 0, 1920, 1080) and a new box of size 960x540, the expression
  \<open>cursor_grab - new_size * ((cursor_grab - old_pos) / old_size)\<close> is 250 on the x axis,
  not less than the old position 0, but the grab box gets the x position 249: the
  quotient, the product and the difference are rounded, and the double below 250 that
  they give is truncated.
\<close>

theorem interactive_anchor_to_cursor_rounds_below:
  "(\<exists>s' g'. interactive_anchor_to_cursor ex_unmaximizing
        (Some \<lparr>box_x = 0, box_y = 0, box_width = 960, box_height = 540\<rparr>) = Inr (s', Some g')
      \<and> box_x (grab_box s') = 249)
   \<and> max (box_x (grab_box ex_unmaximizing))
       (c_int_of_double (grab_x ex_unmaximizing - 960
          * ((grab_x ex_unmaximizing - real_of_int (box_x (grab_box ex_unmaximizing)))
              / real_of_int (box_width (grab_box ex_unmaximizing))))) = 250"
proof -
  have st: "input_mode ex_unmaximizing = LAB_INPUT_STATE_MOVE"
    "grab_box ex_unmaximizing = \<lparr>box_x = 0, box_y = 0, box_width = 1920, box_height = 1080\<rparr>"
    "grab_x ex_unmaximizing = 500" "grab_y ex_unmaximizing = 300"
    by (simp_all add: ex_unmaximizing_def ex_server_def)
  have ne: "\<not> wlr_box_empty (Some \<lparr>box_x = 0, box_y = 0, box_width = 960, box_height = 540\<rparr>)"
    by (simp add: wlr_box_empty_def)
  from anchor_to_cursor_result [OF st(1) ne] st double_examples(3)
  have code: "\<exists>s' g'. interactive_anchor_to_cursor ex_unmaximizing
        (Some \<lparr>box_x = 0, box_y = 0, box_width = 960, box_height = 540\<rparr>) = Inr (s', Some g')
      \<and> box_x (grab_box s') = 249"
    by auto
  have exact: "max (box_x (grab_box ex_unmaximizing))
       (c_int_of_double (grab_x ex_unmaximizing - 960
          * ((grab_x ex_unmaximizing - real_of_int (box_x (grab_box ex_unmaximizing)))
              / real_of_int (box_width (grab_box ex_unmaximizing))))) = 250"
    by (simp add: st c_int_of_double_def)
  show ?thesis
    using code exact by (intro conjI)
qed

text \<open>
  C3, amended. In MOVE mode, with a new box that is not empty and a grab box of nonzero
  width and height, \<^verbatim>\<open>interactive_anchor_to_cursor\<close> sets each axis of the grab box
  position to \<open>cursor_grab - new_size * ((cursor_grab - old_pos) / old_size)\<close> as double
  arithmetic evaluates it, every operation rounded to the nearest double, converted
  to \<^verbatim>\<open>int\<close> by truncation and clamped so that it is never less than the old
  position; the grab box takes the new size. For the old box (0, 0, 200, 100), the
  grab cursor (150, 50) and a new box of size 100x50 the new position is (75, 25).
  With a new box of zero area, or any empty box, the call changes nothing.
\<close>

theorem interactive_anchor_to_cursor_anchor:
  "(input_mode s = LAB_INPUT_STATE_MOVE \<and> \<not> wlr_box_empty (Some g)
      \<and> box_width (grab_box s) \<noteq> 0 \<and> box_height (grab_box s) \<noteq> 0 \<longrightarrow>
     (\<exists>s' g'. interactive_anchor_to_cursor s (Some g) = Inr (s', Some g')
        \<and> box_x (grab_box s') = max (box_x (grab_box s))
            (c_int_of_double
              (double_sub (grab_x s)
                (double_mul (real_of_int (box_width g))
                  (double_div (double_sub (grab_x s) (real_of_int (box_x (grab_box s))))
                    (real_of_int (box_width (grab_box s)))))))
        \<and> box_y (grab_box s') = max (box_y (grab_box s))
            (c_int_of_double
              (double_sub (grab_y s)
                (double_mul (real_of_int (box_height g))
                  (double_div (double_sub (grab_y s) (real_of_int (box_y (grab_box s))))
                    (real_of_int (box_height (grab_box s)))))))
        \<and> box_width (grab_box s') = box_width g \<and> box_height (grab_box s') = box_height g
        \<and> box_x (grab_box s) \<le> box_x (grab_box s')
        \<and> box_y (grab_box s) \<le> box_y (grab_box s')))
   \<and> (input_mode s = LAB_INPUT_STATE_MOVE
       \<and> grab_box s = \<lparr>box_x = 0, box_y = 0, box_width = 200, box_height = 100\<rparr>
       \<and> grab_x s = 150 \<and> grab_y s = 50 \<and> box_width g = 100 \<and> box_height g = 50 \<longrightarrow>
     (\<exists>s' g'. interactive_anchor_to_cursor s (Some g) = Inr (s', Some g')
        \<and> box_x (grab_box s') = 75 \<and> box_y (grab_box s') = 25))
   \<and> (input_mode s = LAB_INPUT_STATE_MOVE \<and> (box_width g = 0 \<or> box_height g = 0) \<longrightarrow>
        interactive_anchor_to_cursor s (Some g) = Inr (s, Some g))
   \<and> (input_mode s = LAB_INPUT_STATE_MOVE \<and> wlr_box_empty geo \<longrightarrow>
        interactive_anchor_to_cursor s geo = Inr (s, geo))"
proof (intro conjI impI; (elim conjE)?)
  assume a: "input_mode s = LAB_INPUT_STATE_MOVE" "\<not> wlr_box_empty (Some g)"
    "box_width (grab_box s) \<noteq> 0" "box_height (grab_box s) \<noteq> 0"
  from anchor_to_cursor_result [OF this]
  show "\<exists>s' g'. interactive_anchor_to_cursor s (Some g) = Inr (s', Some g')
        \<and> box_x (grab_box s') = max (box_x (grab_box s))
            (c_int_of_double
              (double_sub (grab_x s)
                (double_mul (real_of_int (box_width g))
                  (double_div (double_sub (grab_x s) (real_of_int (box_x (grab_box s))))
                    (real_of_int (box_width (grab_box s)))))))
        \<and> box_y (grab_box s') = max (box_y (grab_box s))
            (c_int_of_double
              (double_sub (grab_y s)
                (double_mul (real_of_int (box_height g))
                  (double_div (double_sub (grab_y s) (real_of_int (box_y (grab_box s))))
                    (real_of_int (box_height (grab_box s)))))))
        \<and> box_width (grab_box s') = box_width g \<and> box_height (grab_box s') = box_height g
        \<and> box_x (grab_box s) \<le> box_x (grab_box s')
        \<and> box_y (grab_box s) \<le> box_y (grab_box s')"
    by blast
next
  assume "input_mode s = LAB_INPUT_STATE_MOVE"
    "grab_box s = \<lparr>box_x = 0, box_y = 0, box_width = 200, box_height = 100\<rparr>"
    "grab_x s = 150" "grab_y s = 50" "box_width g = 100" "box_height g = 50"
  then show "\<exists>s' g'. interactive_anchor_to_cursor s (Some g) = Inr (s', Some g')
        \<and> box_x (grab_box s') = 75 \<and> box_y (grab_box s') = 25"
    by (rule anchor_to_cursor_example)
next
  assume "input_mode s = LAB_INPUT_STATE_MOVE" "box_width g = 0 \<or> box_height g = 0"
  then show "interactive_anchor_to_cursor s (Some g) = Inr (s, Some g)"
    by (intro anchor_to_cursor_empty) (auto simp add: wlr_box_empty_def)
next
  assume "input_mode s = LAB_INPUT_STATE_MOVE" "wlr_box_empty geo"
  then show "interactive_anchor_to_cursor s geo = Inr (s, geo)"
    by (rule anchor_to_cursor_empty)
qed

theorem interactive_anchor_to_cursor_anchor_witness:
  "(\<exists>s' g'. interactive_anchor_to_cursor ex_moving
        (Some \<lparr>box_x = 10, box_y = 10, box_width = 100, box_height = 50\<rparr>) = Inr (s', Some g')
      \<and> box_x (grab_box s') = 75 \<and> box_y (grab_box s') = 25)
   \<and> (\<exists>s' g'. interactive_anchor_to_cursor ex_unmaximizing
        (Some \<lparr>box_x = 0, box_y = 0, box_width = 960, box_height = 540\<rparr>) = Inr (s', Some g')
      \<and> box_x (grab_box s') = 249 \<and> box_y (grab_box s') = 150)
   \<and> interactive_anchor_to_cursor ex_moving
        (Some \<lparr>box_x = 10, box_y = 10, box_width = 0, box_height = 50\<rparr>)
      = Inr (ex_moving, Some \<lparr>box_x = 10, box_y = 10, box_width = 0, box_height = 50\<rparr>)
   \<and> interactive_anchor_to_cursor ex_moving None = Inr (ex_moving, None)"
proof -
  have st: "input_mode ex_moving = LAB_INPUT_STATE_MOVE"
    "grab_box ex_moving = \<lparr>box_x = 0, box_y = 0, box_width = 200, box_height = 100\<rparr>"
    "grab_x ex_moving = 150" "grab_y ex_moving = 50"
    by (simp_all add: ex_moving_def ex_server_def)
  have un: "input_mode ex_unmaximizing = LAB_INPUT_STATE_MOVE"
    "grab_box ex_unmaximizing = \<lparr>box_x = 0, box_y = 0, box_width = 1920, box_height = 1080\<rparr>"
    "grab_x ex_unmaximizing = 500" "grab_y ex_unmaximizing = 300"
    by (simp_all add: ex_unmaximizing_def ex_server_def)
  have empty: "wlr_box_empty None"
    "\<not> wlr_box_empty (Some \<lparr>box_x = 0, box_y = 0, box_width = 960, box_height = 540\<rparr>)"
    by (simp_all add: wlr_box_empty_def)
  have first: "\<exists>s' g'. interactive_anchor_to_cursor ex_moving
        (Some \<lparr>box_x = 10, box_y = 10, box_width = 100, box_height = 50\<rparr>) = Inr (s', Some g')
      \<and> box_x (grab_box s') = 75 \<and> box_y (grab_box s') = 25"
    using interactive_anchor_to_cursor_anchor [of ex_moving
        "\<lparr>box_x = 10, box_y = 10, box_width = 100, box_height = 50\<rparr>"] st
    by simp
  have second: "\<exists>s' g'. interactive_anchor_to_cursor ex_unmaximizing
        (Some \<lparr>box_x = 0, box_y = 0, box_width = 960, box_height = 540\<rparr>) = Inr (s', Some g')
      \<and> box_x (grab_box s') = 249 \<and> box_y (grab_box s') = 150"
  proof -
    have "\<exists>s' g'. interactive_anchor_to_cursor ex_unmaximizing
          (Some \<lparr>box_x = 0, box_y = 0, box_width = 960, box_height = 540\<rparr>) = Inr (s', Some g')
        \<and> box_x (grab_box s') = 249 \<and> box_y (grab_box s') = 150
        \<and> box_width (grab_box s') = 960 \<and> box_height (grab_box s') = 540
        \<and> 0 \<le> box_x (grab_box s') \<and> 0 \<le> box_y (grab_box s')"
      using interactive_anchor_to_cursor_anchor [of ex_unmaximizing
          "\<lparr>box_x = 0, box_y = 0, box_width = 960, box_height = 540\<rparr>" None] un empty
        double_examples(3,4)
      by simp
    then show ?thesis
      by blast
  qed
  have rest: "interactive_anchor_to_cursor ex_moving
        (Some \<lparr>box_x = 10, box_y = 10, box_width = 0, box_height = 50\<rparr>)
      = Inr (ex_moving, Some \<lparr>box_x = 10, box_y = 10, box_width = 0, box_height = 50\<rparr>)"
    "interactive_anchor_to_cursor ex_moving None = Inr (ex_moving, None)"
    using interactive_anchor_to_cursor_anchor [of ex_moving
        "\<lparr>box_x = 10, box_y = 10, box_width = 0, box_height = 50\<rparr>" None] st(1) empty(1)
    by simp_all
  show ?thesis
    using first second rest by (intro conjI)
qed

section \<open>Window cycling\<close>

lemma restore_preview_node_result:
  "effects (restore_preview_node s) = effects s @ preview_restore_effects (osd s)"
  "input_mode (restore_preview_node s) = input_mode s"
  "preview_node (osd (restore_preview_node s)) = None"
  "preview_outline (osd (restore_preview_node s)) = preview_outline (osd s)"
  by (auto simp add: restore_preview_node_def preview_restore_effects_def record_effect_def
      Let_def split: option.splits)

lemma osd_finish_result:
  "cycle_view (osd (osd_finish s)) = None"
  "preview_node (osd (osd_finish s)) = None"
  "preview_anchor (osd (osd_finish s)) = None"
  "preview_outline (osd (osd_finish s)) = None"
  "input_mode (osd_finish s) = LAB_INPUT_STATE_PASSTHROUGH"
  "effects (osd_finish s) = effects s @ preview_restore_effects (osd s)
      @ [Seat_focus_override_end] @ outline_destroy_effects (osd s) @ [Cursor_update_focus]"
  by (simp_all add: osd_finish_def Let_def seat_focus_override_end_def cursor_update_focus_def
      record_effect_def restore_preview_node_result outline_destroy_effects_def
      split: option.splits)

lemma find_Some_set: "find P xs = Some x \<Longrightarrow> x \<in> set xs \<and> P x"
  by (induction xs) (auto split: if_splits)

lemma views_before_subset: "set (views_before vs start) \<subseteq> set vs"
proof (cases start)
  case None
  then show ?thesis by (simp add: views_before_def)
next
  case (Some v)
  have "set (tl ys) \<subseteq> set ys" for ys :: "addr list"
    by (cases ys) auto
  then have "set (tl (dropWhile (\<lambda>x. x \<noteq> v) vs)) \<subseteq> set vs"
    using set_dropWhileD by fastforce
  moreover have "set (takeWhile (\<lambda>x. x \<noteq> v) vs) \<subseteq> set vs"
    by (meson set_takeWhileD subsetI)
  ultimately show ?thesis
    using Some by (auto simp add: views_before_def)
qed

lemma view_prev_only_one:
  assumes "\<forall>w \<in> set vs. m w \<longrightarrow> w = v"
  shows "view_prev_no_head_stop vs (Some v) m = Some v"
proof (cases "find m (views_before vs (Some v))")
  case None
  then show ?thesis by (simp add: view_prev_no_head_stop_def)
next
  case (Some w)
  then have "w \<in> set vs" "m w"
    using find_Some_set [OF Some] views_before_subset by auto
  with assms have "w = v" by blast
  with Some show ?thesis by (simp add: view_prev_no_head_stop_def)
qed

lemma get_next_cycle_view_backward:
  "get_next_cycle_view env s (Some v) LAB_CYCLE_DIR_BACKWARD
     = view_prev_no_head_stop (views s) (Some v) (view_matches_criteria env)"
  by (simp add: get_next_cycle_view_def)

lemma osd_on_view_destroy_finish:
  assumes "input_mode s = LAB_INPUT_STATE_WINDOW_SWITCHER" "cycle_view (osd s) = Some v"
    and "view_prev_no_head_stop (views s) (Some v) (view_matches_criteria env) = Some v
         \<or> view_prev_no_head_stop (views s) (Some v) (view_matches_criteria env) = None"
  shows "\<exists>s'. osd_on_view_destroy env s (Some v) = Inr s'
      \<and> cycle_view (osd s') = None \<and> preview_node (osd s') = None
      \<and> preview_anchor (osd s') = None \<and> preview_outline (osd s') = None
      \<and> input_mode s' = LAB_INPUT_STATE_PASSTHROUGH
      \<and> effects s' = effects s @ preview_restore_effects (osd s)
          @ [Seat_focus_override_end] @ outline_destroy_effects (osd s) @ [Cursor_update_focus]"
proof -
  define s1 where "s1 = s\<lparr>osd := (osd s)\<lparr>cycle_view :=
       view_prev_no_head_stop (views s) (Some v) (view_matches_criteria env)\<rparr>\<rparr>"
  have s1: "effects s1 = effects s"
    "preview_restore_effects (osd s1) = preview_restore_effects (osd s)"
    "outline_destroy_effects (osd s1) = outline_destroy_effects (osd s)"
    by (simp_all add: s1_def preview_restore_effects_def outline_destroy_effects_def
        split: option.splits)
  have "osd_on_view_destroy env s (Some v) = Inr (osd_finish s1)"
    using assms
    by (auto simp add: osd_on_view_destroy_def get_next_cycle_view_backward Let_def s1_def
        osd_finish_result split: option.splits)
  then show ?thesis
    using s1 by (simp add: osd_finish_result)
qed

lemma osd_on_view_destroy_replace:
  assumes "input_mode s = LAB_INPUT_STATE_WINDOW_SWITCHER" "cycle_view (osd s) = Some v"
    and "view_prev_no_head_stop (views s) (Some v) (view_matches_criteria env) = Some w"
    and "w \<noteq> v"
  shows "\<exists>s'. osd_on_view_destroy env s (Some v) = Inr s'
      \<and> cycle_view (osd s') = Some w
      \<and> input_mode s' = LAB_INPUT_STATE_WINDOW_SWITCHER
      \<and> effects s' = effects s"
  using assms
  by (auto simp add: osd_on_view_destroy_def get_next_cycle_view_backward Let_def
      split: option.splits)

text \<open>
  C9. While the window switcher is active, destroying the window that is the current
  selection steps the selection backward. If the step comes back to the destroyed
  window or finds no window, the session is finished by force: the selection, the
  preview node, the preview anchor and the outline are cleared, the input mode is
  idle again, and the calls issued are those that put the previewed node back (to its
  parent, above its anchor or to the bottom, disabled again if it was), the end of the
  focus override, the destruction of the outline and the cursor update. The step does
  come back to the destroyed window when no other window of the list matches the
  criteria. If the step finds another window, that window becomes the selection and the
  session goes on.
\<close>

theorem osd_on_view_destroy_force_finish:
  "input_mode s = LAB_INPUT_STATE_WINDOW_SWITCHER \<and> cycle_view (osd s) = Some v \<longrightarrow>
     (view_prev_no_head_stop (views s) (Some v) (view_matches_criteria env) = Some v
        \<or> view_prev_no_head_stop (views s) (Some v) (view_matches_criteria env) = None \<longrightarrow>
       (\<exists>s'. osd_on_view_destroy env s (Some v) = Inr s'
          \<and> cycle_view (osd s') = None \<and> preview_node (osd s') = None
          \<and> preview_anchor (osd s') = None \<and> preview_outline (osd s') = None
          \<and> input_mode s' = LAB_INPUT_STATE_PASSTHROUGH
          \<and> effects s' = effects s @ preview_restore_effects (osd s)
              @ [Seat_focus_override_end] @ outline_destroy_effects (osd s)
              @ [Cursor_update_focus]))
     \<and> ((\<forall>w \<in> set (views s). view_matches_criteria env w \<longrightarrow> w = v) \<longrightarrow>
          view_prev_no_head_stop (views s) (Some v) (view_matches_criteria env) = Some v)
     \<and> (view_prev_no_head_stop (views s) (Some v) (view_matches_criteria env) = Some w
          \<and> w \<noteq> v \<longrightarrow>
       (\<exists>s'. osd_on_view_destroy env s (Some v) = Inr s'
          \<and> cycle_view (osd s') = Some w
          \<and> input_mode s' = LAB_INPUT_STATE_WINDOW_SWITCHER
          \<and> effects s' = effects s))"
  using osd_on_view_destroy_finish [of s v env] osd_on_view_destroy_replace [of s v env w]
    view_prev_only_one [of "views s" "view_matches_criteria env" v]
  by blast

theorem osd_on_view_destroy_force_finish_witness:
  "view_prev_no_head_stop (views ex_switching) (Some 1) (view_matches_criteria ex_osd_env) = Some 1
   \<and> (\<exists>s'. osd_on_view_destroy ex_osd_env ex_switching (Some 1) = Inr s'
         \<and> cycle_view (osd s') = None \<and> preview_node (osd s') = None
         \<and> preview_anchor (osd s') = None
         \<and> input_mode s' = LAB_INPUT_STATE_PASSTHROUGH
         \<and> effects s' = [Scene_node_reparent 40 (Some 41), Scene_node_place_above 40 42,
              Scene_node_set_enabled 40 False, Seat_focus_override_end,
              Scene_node_destroy 43, Cursor_update_focus])
   \<and> (\<exists>s'. osd_on_view_destroy ex_osd_env (ex_switching\<lparr>views := [1, 2]\<rparr>) (Some 1) = Inr s'
         \<and> cycle_view (osd s') = Some 2
         \<and> input_mode s' = LAB_INPUT_STATE_WINDOW_SWITCHER \<and> effects s' = [])"
proof -
  have st: "input_mode ex_switching = LAB_INPUT_STATE_WINDOW_SWITCHER"
    "cycle_view (osd ex_switching) = Some 1" "views ex_switching = [1]"
    "effects ex_switching = []"
    "preview_restore_effects (osd ex_switching)
       = [Scene_node_reparent 40 (Some 41), Scene_node_place_above 40 42,
          Scene_node_set_enabled 40 False]"
    "outline_destroy_effects (osd ex_switching) = [Scene_node_destroy 43]"
    by (simp_all add: ex_switching_def ex_server_def preview_restore_effects_def
        outline_destroy_effects_def)
  have one: "\<forall>w \<in> set (views ex_switching). view_matches_criteria ex_osd_env w \<longrightarrow> w = 1"
    by (simp add: st)
  from osd_on_view_destroy_force_finish [of ex_switching 1 ex_osd_env] st(1,2) one
  have step:
    "view_prev_no_head_stop (views ex_switching) (Some 1) (view_matches_criteria ex_osd_env)
       = Some 1"
    by blast
  with osd_on_view_destroy_force_finish [of ex_switching 1 ex_osd_env] st(1,2)
  obtain s' where "osd_on_view_destroy ex_osd_env ex_switching (Some 1) = Inr s'"
    "cycle_view (osd s') = None" "preview_node (osd s') = None"
    "preview_anchor (osd s') = None" "input_mode s' = LAB_INPUT_STATE_PASSTHROUGH"
    "effects s' = effects ex_switching @ preview_restore_effects (osd ex_switching)
        @ [Seat_focus_override_end] @ outline_destroy_effects (osd ex_switching)
        @ [Cursor_update_focus]"
    by blast
  then have finished: "\<exists>s'. osd_on_view_destroy ex_osd_env ex_switching (Some 1) = Inr s'
         \<and> cycle_view (osd s') = None \<and> preview_node (osd s') = None
         \<and> preview_anchor (osd s') = None
         \<and> input_mode s' = LAB_INPUT_STATE_PASSTHROUGH
         \<and> effects s' = [Scene_node_reparent 40 (Some 41), Scene_node_place_above 40 42,
              Scene_node_set_enabled 40 False, Seat_focus_override_end,
              Scene_node_destroy 43, Cursor_update_focus]"
    by (simp add: st(4-6))
  have two: "view_prev_no_head_stop (views (ex_switching\<lparr>views := [1, 2]\<rparr>)) (Some 1)
      (view_matches_criteria ex_osd_env) = Some 2"
    by (simp add: view_prev_no_head_stop_def views_before_def ex_osd_env_def)
  have replaced: "\<exists>s'. osd_on_view_destroy ex_osd_env (ex_switching\<lparr>views := [1, 2]\<rparr>) (Some 1)
           = Inr s'
         \<and> cycle_view (osd s') = Some 2
         \<and> input_mode s' = LAB_INPUT_STATE_WINDOW_SWITCHER \<and> effects s' = []"
    using osd_on_view_destroy_force_finish [of "ex_switching\<lparr>views := [1, 2]\<rparr>" 1 ex_osd_env 2]
      st(1,2,4) two
    by simp
  show ?thesis
    using step finished replaced by blast
qed

text \<open>
  C1, as the claim states it, fails: on the idle server with the windows 1, 2, 3
  (1 topmost, all focusable) and no selection, \<^verbatim>\<open>osd_begin\<close> with the forward direction
  selects window 2, not window 3. The first step, from no selection, yields window 1.
\<close>

theorem osd_begin_forward_not_third:
  "view_next_no_head_stop (views ex_server) None (view_matches_criteria ex_osd_env) = Some 1
   \<and> cycle_view (osd (osd_begin ex_osd_env ex_server LAB_CYCLE_DIR_FORWARD)) = Some 2
   \<and> cycle_view (osd (osd_begin ex_osd_env ex_server LAB_CYCLE_DIR_FORWARD)) \<noteq> Some 3"
  by (simp add: osd_begin_def get_next_cycle_view_def view_next_no_head_stop_def
      views_after_def Let_def seat_focus_override_begin_def cursor_update_focus_def
      record_effect_def ex_server_def ex_osd_env_def)

text \<open>
  C1, amended. Window-cycle begin with the forward direction and no prior selection,
  in idle mode, over the stacking-ordered list of three focusable windows
  \<open>[w1, w2, w3]\<close> with \<open>w1\<close> topmost, sets the current selection to \<open>w2\<close>, the second
  topmost window: the step from no selection yields the topmost window \<open>w1\<close>, and the
  forward direction is applied once more from there. The mode becomes
  \<^verbatim>\<open>WINDOW_SWITCHER\<close>.
\<close>

theorem osd_begin_forward_selects_second:
  "input_mode s = LAB_INPUT_STATE_PASSTHROUGH \<and> cycle_view (osd s) = None
     \<and> views s = [w1, w2, w3] \<and> view_matches_criteria env w1
     \<and> view_matches_criteria env w2 \<and> view_matches_criteria env w3 \<longrightarrow>
   view_next_no_head_stop (views s) None (view_matches_criteria env) = Some w1
   \<and> view_next_no_head_stop (views s) (Some w1) (view_matches_criteria env) = Some w2
   \<and> cycle_view (osd (osd_begin env s LAB_CYCLE_DIR_FORWARD)) = Some w2
   \<and> input_mode (osd_begin env s LAB_CYCLE_DIR_FORWARD) = LAB_INPUT_STATE_WINDOW_SWITCHER"
  by (simp add: osd_begin_def get_next_cycle_view_def view_next_no_head_stop_def
      views_after_def Let_def seat_focus_override_begin_def cursor_update_focus_def
      record_effect_def)

theorem osd_begin_forward_selects_second_witness:
  "cycle_view (osd (osd_begin ex_osd_env ex_server LAB_CYCLE_DIR_FORWARD)) = Some 2
   \<and> input_mode (osd_begin ex_osd_env ex_server LAB_CYCLE_DIR_FORWARD)
       = LAB_INPUT_STATE_WINDOW_SWITCHER"
proof -
  have "input_mode ex_server = LAB_INPUT_STATE_PASSTHROUGH" "cycle_view (osd ex_server) = None"
    "views ex_server = [1, 2, 3]" "view_matches_criteria ex_osd_env w" for w
    by (simp_all add: ex_server_def ex_osd_env_def)
  then show ?thesis
    using osd_begin_forward_selects_second [of ex_server 1 2 3 ex_osd_env] by blast
qed

end
